theory Spec2Isabelle
  imports Main "HOL-Library.Word"
begin

section \<open>Python values used by the resume-screening application\<close>

text \<open>
  A Python \<^verbatim>\<open>str\<close> is a sequence of Unicode code points, modelled as a list of
  natural numbers; \<^verbatim>\<open>bytes\<close> is a list of 8-bit words. ASCII literals of the
  source are written with \<open>ascii\<close>.
\<close>

type_synonym pystr = "nat list"
type_synonym pybytes = "8 word list"

definition ascii :: "string \<Rightarrow> pystr" where
  "ascii s = map of_char s"

text \<open>
  The exceptions that occur in the application. All of them are subclasses of Python's
  \<^verbatim>\<open>Exception\<close>; each carries the text that \<^verbatim>\<open>str(e)\<close> returns.
  \<open>JSONDecodeError\<close> is the one class that the source catches by name
  (\<^verbatim>\<open>UnicodeDecodeError\<close> is absorbed by the decoder model below).
\<close>

datatype exn =
    ValueError pystr
  | JSONDecodeError pystr
  | AttributeError pystr
  | TypeError pystr
  | OSError pystr
  | FileNotFoundError pystr
  | OtherException pystr

fun exn_text :: "exn \<Rightarrow> pystr" where
  "exn_text (ValueError m) = m"
| "exn_text (JSONDecodeError m) = m"
| "exn_text (AttributeError m) = m"
| "exn_text (TypeError m) = m"
| "exn_text (OSError m) = m"
| "exn_text (FileNotFoundError m) = m"
| "exn_text (OtherException m) = m"

subsection \<open>String methods\<close>

text \<open>
  \<^verbatim>\<open>str.strip()\<close> removes leading and trailing white space, which for Python is
  the set of code points below (\<^verbatim>\<open>str.isspace\<close>).
\<close>

definition py_isspace :: "nat \<Rightarrow> bool" where
  "py_isspace c =
     ((0x09 \<le> c \<and> c \<le> 0x0D) \<or> (0x1C \<le> c \<and> c \<le> 0x20) \<or> c = 0x85 \<or> c = 0xA0
      \<or> c = 0x1680 \<or> (0x2000 \<le> c \<and> c \<le> 0x200A) \<or> c = 0x2028 \<or> c = 0x2029
      \<or> c = 0x202F \<or> c = 0x205F \<or> c = 0x3000)"

definition strip :: "pystr \<Rightarrow> pystr" where
  "strip s = rev (dropWhile py_isspace (rev (dropWhile py_isspace s)))"

text \<open>
  \<^verbatim>\<open>str.lower()\<close>, restricted to what the suffix tests of the source can see: the
  letters A to Z are mapped to a to z. Python also lower-cases letters outside ASCII; none
  of them is mapped to a character of \<^verbatim>\<open>.docx\<close> or \<^verbatim>\<open>.pdf\<close>, so the
  suffix tests are not affected.
\<close>

definition lower_cp :: "nat \<Rightarrow> nat" where
  "lower_cp c = (if 0x41 \<le> c \<and> c \<le> 0x5A then c + 0x20 else c)"

definition lower :: "pystr \<Rightarrow> pystr" where
  "lower s = map lower_cp s"

definition endswith :: "pystr \<Rightarrow> pystr \<Rightarrow> bool" where
  "endswith s suf = (length suf \<le> length s \<and> drop (length s - length suf) s = suf)"

text \<open>\<^verbatim>\<open>sep.join(parts)\<close>.\<close>

fun join :: "pystr \<Rightarrow> pystr list \<Rightarrow> pystr" where
  "join sep [] = []"
| "join sep [p] = p"
| "join sep (p # q # ps) = p @ sep @ join sep (q # ps)"

text \<open>
  \<^verbatim>\<open>s.replace(old, new)\<close>: every occurrence of \<open>old\<close>, found from left to right
  without overlap, is replaced. For an empty \<open>old\<close> Python puts \<open>new\<close> before every
  character and at the end.
\<close>

function replace :: "pystr \<Rightarrow> pystr \<Rightarrow> pystr \<Rightarrow> pystr" where
  "replace s old new =
     (if old = [] then concat (map (\<lambda>c. new @ [c]) s) @ new
      else if s = [] then []
      else if take (length old) s = old then new @ replace (drop (length old) s) old new
      else hd s # replace (tl s) old new)"
  by pat_completeness auto
termination
  by (relation "measure (\<lambda>(s, old, new). length s)") (auto simp: neq_Nil_conv)

declare replace.simps [simp del]

text \<open>
  \<^verbatim>\<open>os.path.splitext(p)[1]\<close> (POSIX): the extension starts at the last dot of the
  last path component, unless only dots stand before it in that component.
\<close>

definition splitext_ext :: "pystr \<Rightarrow> pystr" where
  "splitext_ext p =
     (let base = rev (takeWhile (\<lambda>c. c \<noteq> 0x2F) (rev p));
          ext = rev (takeWhile (\<lambda>c. c \<noteq> 0x2E) (rev base));
          stem = take (length base - length ext - 1) base
      in if 0x2E \<in> set base \<and> filter (\<lambda>c. c \<noteq> 0x2E) stem \<noteq> [] then 0x2E # ext else [])"

subsection \<open>Values parsed from JSON\<close>

text \<open>
  What \<^verbatim>\<open>json.loads\<close> can return. A finite float \<open>Finite m e\<close> stands for
  \<open>m * 2 ^ e\<close>; a dictionary keeps its items in insertion order.
\<close>

datatype pyfloat = Finite int int | PosInf | NegInf | NaN

datatype json =
    JNull
  | JBool bool
  | JInt int
  | JFloat pyfloat
  | JStr pystr
  | JList "json list"
  | JDict "(pystr \<times> json) list"

text \<open>Python's truth value of an object, as \<^verbatim>\<open>if matched_skills:\<close> tests it.\<close>

fun truthy :: "json \<Rightarrow> bool" where
  "truthy JNull = False"
| "truthy (JBool b) = b"
| "truthy (JInt i) = (i \<noteq> 0)"
| "truthy (JFloat (Finite m e)) = (m \<noteq> 0)"
| "truthy (JFloat f) = True"
| "truthy (JStr s) = (s \<noteq> [])"
| "truthy (JList xs) = (xs \<noteq> [])"
| "truthy (JDict items) = (items \<noteq> [])"

fun type_name :: "json \<Rightarrow> string" where
  "type_name JNull = ''NoneType''"
| "type_name (JBool b) = ''bool''"
| "type_name (JInt i) = ''int''"
| "type_name (JFloat f) = ''float''"
| "type_name (JStr s) = ''str''"
| "type_name (JList xs) = ''list''"
| "type_name (JDict items) = ''dict''"

section \<open>The environment and the events of a run\<close>

text \<open>
  The five codec names of \<^verbatim>\<open>encodings_to_try\<close>: \<^verbatim>\<open>'utf-8'\<close>,
  \<^verbatim>\<open>'utf-8-sig'\<close>, \<^verbatim>\<open>'windows-1252'\<close>, \<^verbatim>\<open>'iso-8859-1'\<close>,
  \<^verbatim>\<open>'cp1252'\<close>.
\<close>

datatype encoding = UTF_8 | UTF_8_SIG | WINDOWS_1252 | ISO_8859_1 | CP1252

text \<open>
  Everything outside the repository is a parameter of the model:
  \<^item> \<open>secrets_get key\<close>: the entry of the Streamlit secrets store for \<open>key\<close>
    (\<open>None\<close> when the store has no such entry), or the exception the store raises;
  \<^item> \<open>getenv key\<close>: \<^verbatim>\<open>os.getenv(key)\<close>;
  \<^item> \<open>generate_content api_key prompt\<close>: the text of the model's response
    (\<^verbatim>\<open>self.model.generate_content(prompt)\<close> followed by \<^verbatim>\<open>response.text\<close>),
    or the exception that either raises;
  \<^item> \<open>named_temporary_file suffix\<close>: the path of the file that
    \<^verbatim>\<open>tempfile.NamedTemporaryFile(delete=False, suffix=suffix)\<close> creates, or the
    exception it raises;
  \<^item> \<open>tmp_write path data\<close>: \<open>Some e\<close> when writing \<open>data\<close> raises \<open>e\<close>;
  \<^item> \<open>docx_paragraphs content\<close>: the texts of
    \<^verbatim>\<open>docx.Document(path).paragraphs\<close>, or the exception raised;
  \<^item> \<open>pdf_page_texts content\<close>: \<^verbatim>\<open>page.extract_text()\<close> for each page of
    \<^verbatim>\<open>pypdf.PdfReader(f).pages\<close>, or the exception raised;
  \<^item> \<open>decode enc bs\<close>: \<^verbatim>\<open>bs.decode(enc)\<close>, with \<open>None\<close> for
    \<^verbatim>\<open>UnicodeDecodeError\<close>;
  \<^item> \<open>json_loads s\<close>: \<^verbatim>\<open>json.loads(s)\<close>, or the exception raised.
\<close>

record env =
  secrets_get :: "pystr \<Rightarrow> exn + pystr option"
  getenv :: "pystr \<Rightarrow> pystr option"
  generate_content :: "pystr \<Rightarrow> pystr \<Rightarrow> exn + pystr"
  named_temporary_file :: "pystr \<Rightarrow> exn + pystr"
  tmp_write :: "pystr \<Rightarrow> pybytes \<Rightarrow> exn option"
  docx_paragraphs :: "pybytes \<Rightarrow> exn + pystr list"
  pdf_page_texts :: "pybytes \<Rightarrow> exn + pystr list"
  decode :: "encoding \<Rightarrow> pybytes \<Rightarrow> pystr option"
  json_loads :: "pystr \<Rightarrow> exn + json"

text \<open>The file system maps a path to the content of the file there.\<close>

type_synonym filesystem = "pystr \<rightharpoonup> pybytes"

text \<open>
  A run is observed as the list of its events, in the order in which they happen: the
  calls that leave the process or touch the file system, and the Streamlit elements
  shown. \<open>Metric label v\<close> shows the text \<^verbatim>\<open>f"{v}/100"\<close> and \<open>Bullet v\<close> the text
  of \<open>v\<close> after a bullet sign; \<open>Sidebar\<close> stands for the static instructions.
\<close>

datatype event =
    TmpCreate pystr
  | TmpWrite pystr pybytes
  | ExtractText pystr
  | ReadJD
  | Decode encoding bool
  | Unlink pystr
  | ApiCall pystr
  | JsonLoads pystr
  | SetPageConfig
  | Title pystr
  | Markdown pystr
  | FileUploader pystr
  | Button pystr
  | StError pystr
  | StWarning pystr
  | StSuccess pystr
  | Spinner pystr
  | Columns nat
  | Metric pystr json
  | Subheader pystr
  | Write json
  | Bullet json
  | Expander pystr
  | Json json
  | Code pystr
  | Sidebar

fun apply_event :: "filesystem \<Rightarrow> event \<Rightarrow> filesystem" where
  "apply_event files (TmpCreate p) = files(p \<mapsto> [])"
| "apply_event files (TmpWrite p bs) = files(p \<mapsto> bs)"
| "apply_event files (Unlink p) = files(p := None)"
| "apply_event files ev = files"

definition files_after :: "filesystem \<Rightarrow> event list \<Rightarrow> filesystem" where
  "files_after files evs = foldl apply_event files evs"

text \<open>
  A computation gives its events and either a value or the signal that ended it: an
  exception (a subclass of \<^verbatim>\<open>Exception\<close>), or the \<^verbatim>\<open>StopException\<close> of
  \<^verbatim>\<open>st.stop()\<close>, a \<^verbatim>\<open>BaseException\<close> that \<^verbatim>\<open>except Exception\<close> does not catch.
\<close>

datatype signal = Raised exn | StopScript

type_synonym 'a run = "event list \<times> (signal + 'a)"

definition ret :: "'a \<Rightarrow> 'a run" where
  "ret x = ([], Inr x)"

definition emit :: "event list \<Rightarrow> unit run" where
  "emit evs = (evs, Inr ())"

definition raise :: "exn \<Rightarrow> 'a run" where
  "raise e = ([], Inl (Raised e))"

definition st_stop :: "'a run" where
  "st_stop = ([], Inl StopScript)"

definition lift :: "exn + 'a \<Rightarrow> 'a run" where
  "lift r = (case r of Inl e \<Rightarrow> raise e | Inr x \<Rightarrow> ret x)"

definition seq :: "'a run \<Rightarrow> ('a \<Rightarrow> 'b run) \<Rightarrow> 'b run" where
  "seq m f =
     (case m of
        (evs, Inl s) \<Rightarrow> (evs, Inl s)
      | (evs, Inr x) \<Rightarrow> (case f x of (evs', r) \<Rightarrow> (evs @ evs', r)))"

text \<open>\<^verbatim>\<open>try: body except Exception as e: handler\<close>.\<close>

definition except_Exception :: "'a run \<Rightarrow> (exn \<Rightarrow> 'a run) \<Rightarrow> 'a run" where
  "except_Exception body handler =
     (case body of
        (evs, Inl (Raised e)) \<Rightarrow> (case handler e of (evs', r) \<Rightarrow> (evs @ evs', r))
      | (evs, r) \<Rightarrow> (evs, r))"

text \<open>\<^verbatim>\<open>try: body except json.JSONDecodeError as e: handler\<close>.\<close>

definition except_JSONDecodeError :: "'a run \<Rightarrow> (exn \<Rightarrow> 'a run) \<Rightarrow> 'a run" where
  "except_JSONDecodeError body handler =
     (case body of
        (evs, Inl (Raised (JSONDecodeError m))) \<Rightarrow>
          (case handler (JSONDecodeError m) of (evs', r) \<Rightarrow> (evs @ evs', r))
      | (evs, r) \<Rightarrow> (evs, r))"

section \<open>Text extraction (src/extract_text.py)\<close>

definition newline :: pystr where
  "newline = [0x0A]"

definition msg_file_not_found :: pystr where
  "msg_file_not_found = ascii ''File not found.''"

definition msg_no_text_document :: pystr where
  "msg_no_text_document = ascii ''No text found in document.''"

definition msg_no_text_pdf :: pystr where
  "msg_no_text_pdf = ascii ''No text found in PDF.''"

definition msg_unsupported :: pystr where
  "msg_unsupported = ascii ''Unsupported file format. Please use PDF or DOCX.''"

definition msg_error_extracting :: "exn \<Rightarrow> pystr" where
  "msg_error_extracting e = ascii ''Error extracting text: '' @ exn_text e"

text \<open>The body of the \<^verbatim>\<open>try\<close> block: it returns a string or raises.\<close>

definition extract_body :: "env \<Rightarrow> pybytes \<Rightarrow> pystr \<Rightarrow> exn + pystr" where
  "extract_body env content file_path =
     (if endswith (lower file_path) (ascii ''.docx'') then
        (case docx_paragraphs env content of
           Inl e \<Rightarrow> Inl e
         | Inr paras \<Rightarrow>
             (let text = join newline (filter (\<lambda>para. strip para \<noteq> []) paras)
              in Inr (if strip text \<noteq> [] then text else msg_no_text_document)))
      else if endswith (lower file_path) (ascii ''.pdf'') then
        (case pdf_page_texts env content of
           Inl e \<Rightarrow> Inl e
         | Inr pages \<Rightarrow>
             (let text_pages = filter (\<lambda>page_text. page_text \<noteq> []) pages;
                  full_text = join newline text_pages
              in Inr (if strip full_text \<noteq> [] then full_text else msg_no_text_pdf)))
      else Inr msg_unsupported)"

text \<open>
  \<^verbatim>\<open>extract_text_from_file(file_path)\<close>: the existence test comes first, outside
  the \<^verbatim>\<open>try\<close>; \<^verbatim>\<open>except Exception as e\<close> turns every exception of the body
  into a string. The result type keeps the possibility of raising, so that not raising
  is a property and not a convention.
\<close>

definition extract_text_from_file :: "env \<Rightarrow> filesystem \<Rightarrow> pystr \<Rightarrow> exn + pystr" where
  "extract_text_from_file env files file_path =
     (case files file_path of
        None \<Rightarrow> Inr msg_file_not_found
      | Some content \<Rightarrow>
          (case extract_body env content file_path of
             Inl e \<Rightarrow> Inr (msg_error_extracting e)
           | Inr text \<Rightarrow> Inr text))"

section \<open>The screening model (src/resume_screening.py)\<close>

definition cross_mark :: nat where
  "cross_mark = 0x274C"

definition check_mark :: nat where
  "check_mark = 0x2705"

definition GEMINI_API_KEY :: pystr where
  "GEMINI_API_KEY = ascii ''GEMINI_API_KEY''"

definition msg_key_not_found :: pystr where
  "msg_key_not_found =
     cross_mark # ascii '' GEMINI_API_KEY not found! Please add it to Streamlit Secrets or .env file.''"

record screening_model =
  api_key :: pystr

text \<open>
  \<^verbatim>\<open>st.secrets.get("GEMINI_API_KEY", os.getenv("GEMINI_API_KEY"))\<close>: the default
  is used when the store has no entry for the key.
\<close>

definition read_api_key :: "env \<Rightarrow> exn + pystr option" where
  "read_api_key env =
     (let dflt = getenv env GEMINI_API_KEY
      in case secrets_get env GEMINI_API_KEY of
           Inl e \<Rightarrow> Inl e
         | Inr None \<Rightarrow> Inr dflt
         | Inr (Some k) \<Rightarrow> Inr (Some k))"

text \<open>
  \<^verbatim>\<open>ResumeScreeningModel.__init__\<close>: \<^verbatim>\<open>not self.api_key\<close> holds for
  \<^verbatim>\<open>None\<close> and for the empty string.
\<close>

definition init_model :: "env \<Rightarrow> exn + screening_model" where
  "init_model env =
     (case read_api_key env of
        Inl e \<Rightarrow> Inl e
      | Inr None \<Rightarrow> Inl (ValueError msg_key_not_found)
      | Inr (Some k) \<Rightarrow>
          (if k = [] then Inl (ValueError msg_key_not_found) else Inr \<lparr>api_key = k\<rparr>))"

definition text_lines :: "string list \<Rightarrow> pystr" where
  "text_lines ls = concat (map (\<lambda>l. ascii l @ newline) ls)"

definition build_prompt :: "pystr \<Rightarrow> pystr \<Rightarrow> pystr" where
  \<open>build_prompt resume_text job_description_text =
     text_lines
       ['''',
        ''        You are an expert technical recruiter specializing in screening resumes for technology roles.'',
        ''        Carefully analyze the candidate's resume against the given job description and provide a comprehensive evaluation.'',
        '''',
        ''        **Job Description:**'',
        ''        ```'']
     @ ascii ''        '' @ job_description_text @ newline
     @ text_lines
       [''        ```'',
        '''',
        ''        **Candidate's Resume:**'',
        ''        ```'']
     @ ascii ''        '' @ resume_text @ newline
     @ text_lines
       [''        ```'',
        '''',
        ''        Please provide your evaluation in the following JSON format (ensure valid JSON output):'',
        ''        {'',
        ''            "score": [integer between 0-100 based on overall match],'',
        ''            "summary": "[2-3 sentence summary of the candidate's fit for this role]",'',
        ''            "matched_skills": ["list of skills/technologies from resume that match job requirements"],'',
        ''            "missing_skills": ["list of important skills/technologies mentioned in job description but missing from resume"]'',
        ''        }'',
        '''',
        ''        Evaluation Criteria:'',
        ''        - Technical skills alignment with job requirements'',
        ''        - Relevant work experience and projects'',
        ''        - Educational background relevance'',
        ''        - Overall career progression and achievements'',
        '''',
        ''        Provide only the JSON response without any additional text or formatting.'']
     @ ascii ''        ''\<close>

definition msg_both_required :: pystr where
  "msg_both_required = ascii ''Both resume text and job description text are required.''"

definition msg_generating :: "exn \<Rightarrow> pystr" where
  "msg_generating e = ascii ''Error generating content from Gemini API: '' @ exn_text e"

text \<open>
  \<^verbatim>\<open>screen_resume(self, resume_text, job_description_text)\<close>. The request to the
  external API is the event \<open>ApiCall prompt\<close>; an exception of the API is raised again
  as a plain \<^verbatim>\<open>Exception\<close> with a longer text.
\<close>

definition screen_resume :: "env \<Rightarrow> screening_model \<Rightarrow> pystr \<Rightarrow> pystr \<Rightarrow> pystr run" where
  "screen_resume env self resume_text job_description_text =
     (if resume_text = [] \<or> job_description_text = [] then raise (ValueError msg_both_required)
      else
        (let prompt = build_prompt resume_text job_description_text
         in seq (emit [ApiCall prompt]) (\<lambda>_.
              case generate_content env (api_key self) prompt of
                Inl e \<Rightarrow> raise (OtherException (msg_generating e))
              | Inr response_text \<Rightarrow> ret response_text)))"

section \<open>The application (app.py)\<close>

definition quoted :: "string \<Rightarrow> string" where
  "quoted s = [CHR 0x27] @ s @ [CHR 0x27]"

subsection \<open>Showing the parsed result\<close>

text \<open>
  \<^verbatim>\<open>d.get(key, default)\<close> on the items of a dictionary.
\<close>

definition get_default :: "(pystr \<times> json) list \<Rightarrow> pystr \<Rightarrow> json \<Rightarrow> json" where
  "get_default items key dflt = (case map_of items key of Some v \<Rightarrow> v | None \<Rightarrow> dflt)"

text \<open>
  \<^verbatim>\<open>parsed_result.get(key, default)\<close>: only a dictionary has the method; on any
  other value the attribute lookup raises \<^verbatim>\<open>AttributeError\<close>.
\<close>

definition dict_get :: "json \<Rightarrow> pystr \<Rightarrow> json \<Rightarrow> json run" where
  "dict_get obj key dflt =
     (case obj of
        JDict items \<Rightarrow> ret (get_default items key dflt)
      | _ \<Rightarrow>
          raise (AttributeError
            (ascii (quoted (type_name obj) @ '' object has no attribute '' @ quoted ''get''))))"

text \<open>
  \<^verbatim>\<open>for skill in skills\<close>: a list gives its elements, a string its characters, a
  dictionary its keys; any other value is not iterable (\<open>None\<close>) and the loop raises
  \<^verbatim>\<open>TypeError\<close>.
\<close>

fun iter_items :: "json \<Rightarrow> json list option" where
  "iter_items (JList xs) = Some xs"
| "iter_items (JStr s) = Some (map (\<lambda>c. JStr [c]) s)"
| "iter_items (JDict items) = Some (map (\<lambda>item. JStr (fst item)) items)"
| "iter_items v = None"

definition py_iter :: "json \<Rightarrow> json list run" where
  "py_iter v =
     (case iter_items v of
        Some xs \<Rightarrow> ret xs
      | None \<Rightarrow> raise (TypeError (ascii (quoted (type_name v) @ '' object is not iterable''))))"

definition show_skills :: "json \<Rightarrow> pystr \<Rightarrow> unit run" where
  "show_skills skills none_text =
     (if truthy skills then seq (py_iter skills) (\<lambda>items. emit (map Bullet items))
      else emit [Write (JStr none_text)])"

definition msg_complete :: pystr where
  "msg_complete = check_mark # ascii '' Evaluation Complete!''"

definition hdr_summary :: pystr where
  "hdr_summary = 0x1F4DD # ascii '' Summary''"

definition hdr_matched :: pystr where
  "hdr_matched = check_mark # ascii '' Matched Skills''"

definition hdr_missing :: pystr where
  "hdr_missing = cross_mark # ascii '' Missing Skills''"

definition hdr_raw_json :: pystr where
  "hdr_raw_json = 0x1F50D # ascii '' View Raw JSON Response''"

definition default_summary :: pystr where
  "default_summary = ascii ''No summary available''"

definition no_matched_text :: pystr where
  "no_matched_text = ascii ''No matched skills found''"

definition no_missing_text :: pystr where
  "no_missing_text = ascii ''No missing skills identified''"

text \<open>Lines 97 to 132 of app.py, from the success banner to the raw JSON.\<close>

definition display_result :: "json \<Rightarrow> unit run" where
  "display_result parsed_result =
     seq (emit [StSuccess msg_complete, Columns 3]) (\<lambda>_.
     seq (dict_get parsed_result (ascii ''score'') (JInt 0)) (\<lambda>score.
     seq (emit [Metric (ascii ''Match Score'') score, Subheader hdr_summary]) (\<lambda>_.
     seq (dict_get parsed_result (ascii ''summary'') (JStr default_summary)) (\<lambda>summary.
     seq (emit [Write summary, Columns 2, Subheader hdr_matched]) (\<lambda>_.
     seq (dict_get parsed_result (ascii ''matched_skills'') (JList [])) (\<lambda>matched_skills.
     seq (show_skills matched_skills no_matched_text) (\<lambda>_.
     seq (emit [Subheader hdr_missing]) (\<lambda>_.
     seq (dict_get parsed_result (ascii ''missing_skills'') (JList [])) (\<lambda>missing_skills.
     seq (show_skills missing_skills no_missing_text) (\<lambda>_.
     emit [Expander hdr_raw_json, Json parsed_result]))))))))))"

subsection \<open>From the model's response to the display\<close>

definition msg_parse_failed :: "exn \<Rightarrow> pystr" where
  "msg_parse_failed e =
     cross_mark # ascii '' Failed to parse JSON from model output: '' @ exn_text e"

definition msg_no_response :: pystr where
  "msg_no_response = cross_mark # ascii '' No response received from the model.''"

definition msg_api_error :: "exn \<Rightarrow> pystr" where
  "msg_api_error e = cross_mark # ascii '' Error calling Gemini API: '' @ exn_text e"

text \<open>
  \<^verbatim>\<open>result_text.replace("```json\n", "").replace("```", "").strip()\<close>.
\<close>

definition clean_result :: "pystr \<Rightarrow> pystr" where
  "clean_result result_text =
     strip (replace (replace result_text (ascii ''```json'' @ newline) []) (ascii ''```'') [])"

definition process_response :: "env \<Rightarrow> pystr \<Rightarrow> unit run" where
  "process_response env result_text =
     (if result_text \<noteq> [] then
        except_JSONDecodeError
          (seq (emit [JsonLoads (clean_result result_text)]) (\<lambda>_.
           seq (lift (json_loads env (clean_result result_text))) (\<lambda>parsed_result.
           display_result parsed_result)))
          (\<lambda>e. emit [StError (msg_parse_failed e), Subheader (ascii ''Raw Response:''),
                     Code result_text])
      else emit [StError msg_no_response])"

definition run_screening :: "env \<Rightarrow> screening_model \<Rightarrow> pystr \<Rightarrow> pystr \<Rightarrow> unit run" where
  "run_screening env resume_model resume_text jd_text =
     seq (emit [Spinner (ascii ''Screening resume...'')]) (\<lambda>_.
     except_Exception
       (seq (screen_resume env resume_model resume_text jd_text) (process_response env))
       (\<lambda>e. emit [StError (msg_api_error e)]))"

subsection \<open>Validation of the two texts\<close>

definition msg_extract_failed :: pystr where
  "msg_extract_failed =
     cross_mark # ascii '' Failed to extract text from resume. Please check if the file is valid.''"

definition msg_jd_empty :: pystr where
  "msg_jd_empty = cross_mark # ascii '' Job description appears to be empty.''"

definition validate_and_screen ::
    "env \<Rightarrow> screening_model \<Rightarrow> pystr \<Rightarrow> pystr \<Rightarrow> unit run" where
  "validate_and_screen env resume_model resume_text jd_text =
     (if resume_text = [] \<or> strip resume_text = [] then emit [StError msg_extract_failed]
      else if jd_text = [] \<or> strip jd_text = [] then emit [StError msg_jd_empty]
      else run_screening env resume_model resume_text jd_text)"

subsection \<open>The decode loop\<close>

definition encodings_to_try :: "encoding list" where
  "encodings_to_try = [UTF_8, UTF_8_SIG, WINDOWS_1252, ISO_8859_1, CP1252]"

text \<open>
  The \<^verbatim>\<open>for\<close> loop over the encodings: \<open>Decode enc ok\<close> records each attempt; the
  loop ends at the first success (\<^verbatim>\<open>break\<close>) and gives \<open>None\<close> when the list is
  used up (\<^verbatim>\<open>jd_text\<close> is still \<^verbatim>\<open>None\<close>).
\<close>

fun decode_loop :: "env \<Rightarrow> pybytes \<Rightarrow> encoding list \<Rightarrow> event list \<times> pystr option" where
  "decode_loop env jd_bytes [] = ([], None)"
| "decode_loop env jd_bytes (encoding # rest) =
     (case decode env encoding jd_bytes of
        Some jd_text \<Rightarrow> ([Decode encoding True], Some jd_text)
      | None \<Rightarrow>
          (case decode_loop env jd_bytes rest of
             (evs, r) \<Rightarrow> (Decode encoding False # evs, r)))"

definition decode_jd :: "env \<Rightarrow> pybytes \<Rightarrow> pystr option run" where
  "decode_jd env jd_bytes =
     (case decode_loop env jd_bytes encodings_to_try of (evs, r) \<Rightarrow> (evs, Inr r))"

subsection \<open>The handler of the button\<close>

record uploaded_file =
  file_name :: pystr
  file_bytes :: pybytes

definition msg_upload_both :: pystr where
  "msg_upload_both = ascii ''Please upload both a resume and a job description!''"

definition msg_decode_failed :: pystr where
  "msg_decode_failed =
     cross_mark #
     ascii '' Could not decode job description file. Please save it as UTF-8 encoded text file.''"

definition msg_processing :: "exn \<Rightarrow> pystr" where
  "msg_processing e = cross_mark # ascii '' Error processing files: '' @ exn_text e"

text \<open>
  Lines 50 to 139 of app.py, the body of the outer \<^verbatim>\<open>try\<close>. The temporary file
  exists from \<open>TmpCreate\<close> on (\<^verbatim>\<open>delete=False\<close>), also when the write raises;
  the extractor sees the file system with the resume written to it.
\<close>

definition process_files ::
    "env \<Rightarrow> screening_model \<Rightarrow> filesystem \<Rightarrow> uploaded_file \<Rightarrow> uploaded_file \<Rightarrow> unit run" where
  "process_files env resume_model files resume_file jd_file =
     seq (lift (named_temporary_file env (splitext_ext (file_name resume_file)))) (\<lambda>tmp_resume_path.
     seq (emit [TmpCreate tmp_resume_path]) (\<lambda>_.
     seq (case tmp_write env tmp_resume_path (file_bytes resume_file) of
            Some e \<Rightarrow> raise e
          | None \<Rightarrow> emit [TmpWrite tmp_resume_path (file_bytes resume_file)]) (\<lambda>_.
     seq (emit [ExtractText tmp_resume_path]) (\<lambda>_.
     seq (lift (extract_text_from_file env
                  (files(tmp_resume_path \<mapsto> file_bytes resume_file)) tmp_resume_path)) (\<lambda>resume_text.
     seq (emit [ReadJD]) (\<lambda>_.
     seq (decode_jd env (file_bytes jd_file)) (\<lambda>jd_text.
     case jd_text of
       None \<Rightarrow> seq (emit [StError msg_decode_failed]) (\<lambda>_. st_stop)
     | Some jd_text \<Rightarrow>
         seq (emit [Unlink tmp_resume_path]) (\<lambda>_.
         validate_and_screen env resume_model resume_text jd_text))))))))"

text \<open>
  The body of \<^verbatim>\<open>if st.button("Evaluate Resume")\<close>. An uploaded file is always
  true as a condition, so \<^verbatim>\<open>not resume_file\<close> holds exactly when nothing was
  uploaded.
\<close>

definition evaluate_resume ::
    "env \<Rightarrow> screening_model \<Rightarrow> filesystem \<Rightarrow> uploaded_file option \<Rightarrow> uploaded_file option
      \<Rightarrow> unit run" where
  "evaluate_resume env resume_model files resume_file jd_file =
     (case (resume_file, jd_file) of
        (Some rf, Some jf) \<Rightarrow>
          except_Exception (process_files env resume_model files rf jf)
            (\<lambda>e. emit [StError (msg_processing e)])
      | _ \<Rightarrow> emit [StWarning msg_upload_both])"

subsection \<open>The script\<close>

definition msg_init_failed :: "exn \<Rightarrow> pystr" where
  "msg_init_failed e = ascii ''Failed to initialize model: '' @ exn_text e"

definition msg_model_not_loaded :: pystr where
  "msg_model_not_loaded =
     cross_mark #
     ascii '' Failed to load the resume screening model. Please check your API key in .env file.''"

definition load_model :: "env \<Rightarrow> event list \<times> screening_model option" where
  "load_model env =
     (case init_model env of
        Inl e \<Rightarrow> ([StError (msg_init_failed e)], None)
      | Inr model \<Rightarrow> ([], Some model))"

record request =
  resume_upload :: "uploaded_file option"
  jd_upload :: "uploaded_file option"
  button_clicked :: bool

definition page_header :: "event list" where
  "page_header =
     [SetPageConfig,
      Title (0x1F4C4 # ascii '' Resume Screening using Gemini LLM''),
      Markdown (ascii ''Upload a candidate's resume and a job description, and get an AI evaluation!'')]"

definition upload_widgets :: "event list" where
  "upload_widgets =
     [FileUploader (ascii ''Upload Candidate Resume (PDF or DOCX)''),
      FileUploader (ascii ''Upload Job Description (TXT)''),
      Button (ascii ''Evaluate Resume'')]"

text \<open>
  One run of the script app.py, from top to bottom: the model is loaded, the header is
  shown, the script stops when there is no model, and otherwise shows the two uploaders
  and the button, handles a click and ends with the sidebar.
\<close>

definition app :: "env \<Rightarrow> filesystem \<Rightarrow> request \<Rightarrow> unit run" where
  "app env files req =
     (case load_model env of
        (load_evs, resume_model) \<Rightarrow>
          seq (emit (load_evs @ page_header)) (\<lambda>_.
          case resume_model of
            None \<Rightarrow> seq (emit [StError msg_model_not_loaded]) (\<lambda>_. st_stop)
          | Some model \<Rightarrow>
              seq (emit upload_widgets) (\<lambda>_.
              seq (if button_clicked req
                   then evaluate_resume env model files (resume_upload req) (jd_upload req)
                   else ret ()) (\<lambda>_.
              emit [Sidebar]))))"

section \<open>Observations on a run\<close>

text \<open>The elements that show the evaluation: lines 97 to 132 of app.py.\<close>

fun shows_result :: "event \<Rightarrow> bool" where
  "shows_result (StSuccess t) = True"
| "shows_result (Columns n) = True"
| "shows_result (Metric l v) = True"
| "shows_result (Write v) = True"
| "shows_result (Bullet v) = True"
| "shows_result (Expander t) = True"
| "shows_result (Json v) = True"
| "shows_result ev = False"

fun is_api_call :: "event \<Rightarrow> bool" where
  "is_api_call (ApiCall p) = True"
| "is_api_call ev = False"

text \<open>The messages with which the application reports a failure to the user.\<close>

fun is_failure_message :: "event \<Rightarrow> bool" where
  "is_failure_message (StError t) = True"
| "is_failure_message (StWarning t) = True"
| "is_failure_message ev = False"

section \<open>Example runs\<close>

text \<open>
  An environment for concrete runs. The key comes from the process environment, the
  temporary file is \<^verbatim>\<open>/tmp/tmpab12\<close> with the suffix asked for, the PDF has one
  page of text, and the model answers with a JSON object in a code fence. The codecs and
  the JSON parser are given on the inputs of the examples: bytes below 0x80 decode to
  themselves under all five codecs; a text of such bytes and the byte 0xE9, which is
  never followed by a continuation byte there, is not UTF-8 and is decoded byte by byte
  under the three one-byte codecs; the parser knows the objects of
  \<open>demo_response\<close> and \<open>demo_full_text\<close> and rejects everything else, as it does the text
  \<^verbatim>\<open>Sorry, I cannot help with that.\<close>
\<close>

definition ascii_bytes :: "string \<Rightarrow> pybytes" where
  "ascii_bytes s = map of_char s"

definition demo_decode :: "encoding \<Rightarrow> pybytes \<Rightarrow> pystr option" where
  "demo_decode enc bs =
     (if list_all (\<lambda>b. b < 0x80) bs then Some (map unat bs)
      else if list_all (\<lambda>b. b < 0x80 \<or> b = 0xE9) bs
              \<and> (enc = WINDOWS_1252 \<or> enc = ISO_8859_1 \<or> enc = CP1252)
      then Some (map unat bs)
      else None)"

definition demo_object_text :: pystr where
  \<open>demo_object_text = ascii ''{"score": 150, "matched_skills": ["Python"]}''\<close>

definition demo_object :: "(pystr \<times> json) list" where
  "demo_object =
     [(ascii ''score'', JInt 150), (ascii ''matched_skills'', JList [JStr (ascii ''Python'')])]"

definition demo_response :: pystr where
  "demo_response = ascii ''```json'' @ newline @ demo_object_text @ newline @ ascii ''```''"

definition demo_refusal :: pystr where
  "demo_refusal = ascii ''Sorry, I cannot help with that.''"

text \<open>A response with all four fields, not fenced.\<close>

definition demo_full_text :: pystr where
  \<open>demo_full_text =
     ascii ''{"score": 72, "summary": "Good fit", "matched_skills": ["Python"], "missing_skills": ["Django"]}''\<close>

definition demo_full_object :: "(pystr \<times> json) list" where
  "demo_full_object =
     [(ascii ''score'', JInt 72), (ascii ''summary'', JStr (ascii ''Good fit'')),
      (ascii ''matched_skills'', JList [JStr (ascii ''Python'')]),
      (ascii ''missing_skills'', JList [JStr (ascii ''Django'')])]"

definition demo_json_loads :: "pystr \<Rightarrow> exn + json" where
  "demo_json_loads s =
     (if s = demo_object_text then Inr (JDict demo_object)
      else if s = demo_full_text then Inr (JDict demo_full_object)
      else Inl (JSONDecodeError (ascii ''Expecting value: line 1 column 1 (char 0)'')))"

definition demo_env :: env where
  "demo_env =
     \<lparr>secrets_get = (\<lambda>key. Inr None),
      getenv = (\<lambda>key. if key = GEMINI_API_KEY then Some (ascii ''k3y'') else None),
      generate_content = (\<lambda>key prompt. Inr demo_response),
      named_temporary_file = (\<lambda>suffix. Inr (ascii ''/tmp/tmpab12'' @ suffix)),
      tmp_write = (\<lambda>path content. None),
      docx_paragraphs = (\<lambda>content. Inr [ascii ''Python developer'', ascii '' '']),
      pdf_page_texts = (\<lambda>content. Inr [ascii ''Python developer'']),
      decode = demo_decode,
      json_loads = demo_json_loads\<rparr>"

definition demo_model :: screening_model where
  "demo_model = \<lparr>api_key = ascii ''k3y''\<rparr>"

definition demo_resume :: uploaded_file where
  "demo_resume = \<lparr>file_name = ascii ''cv.pdf'', file_bytes = ascii_bytes ''%PDF-1.7''\<rparr>"

definition demo_jd :: uploaded_file where
  "demo_jd = \<lparr>file_name = ascii ''jd.txt'', file_bytes = ascii_bytes ''Django''\<rparr>"

text \<open>A job description saved as Latin-1, with one accented letter.\<close>

definition demo_jd_latin1 :: uploaded_file where
  "demo_jd_latin1 =
     \<lparr>file_name = ascii ''jd.txt'',
      file_bytes = ascii_bytes ''D'' @ [0xE9] @ ascii_bytes ''veloppeur Python''\<rparr>"

definition demo_latin1_text :: pystr where
  "demo_latin1_text = ascii ''D'' @ [0xE9] @ ascii ''veloppeur Python''"

definition demo_request :: request where
  "demo_request =
     \<lparr>resume_upload = Some demo_resume, jd_upload = Some demo_jd, button_clicked = True\<rparr>"

definition demo_tmp_path :: pystr where
  "demo_tmp_path = ascii ''/tmp/tmpab12.pdf''"

definition demo_docx_path :: pystr where
  "demo_docx_path = ascii ''/tmp/tmpcd34.DOCX''"

definition demo_txt_path :: pystr where
  "demo_txt_path = ascii ''/tmp/notes.txt''"

definition demo_files :: filesystem where
  "demo_files =
     [demo_tmp_path \<mapsto> ascii_bytes ''%PDF-1.7'', demo_docx_path \<mapsto> ascii_bytes ''PK'',
      demo_txt_path \<mapsto> ascii_bytes ''notes'']"

text \<open>A PDF that the library cannot read.\<close>

definition broken_env :: env where
  "broken_env =
     demo_env\<lparr>pdf_page_texts := (\<lambda>content. Inl (OtherException (ascii ''EOF marker not found'')))\<rparr>"

text \<open>A PDF without a text layer: its one page has no text.\<close>

definition scanned_env :: env where
  "scanned_env = demo_env\<lparr>pdf_page_texts := (\<lambda>content. Inr [[]])\<rparr>"

text \<open>No space is left on the device when the resume is written.\<close>

definition disk_full_env :: env where
  "disk_full_env =
     demo_env\<lparr>tmp_write :=
       (\<lambda>path content. Some (OSError (ascii ''[Errno 28] No space left on device'')))\<rparr>"

text \<open>The model answers in prose.\<close>

definition refusing_env :: env where
  "refusing_env = demo_env\<lparr>generate_content := (\<lambda>key prompt. Inr demo_refusal)\<rparr>"


text \<open>Codecs that reject the bytes of the job description.\<close>

definition undecodable_env :: env where
  "undecodable_env = demo_env\<lparr>decode := (\<lambda>enc bs. None)\<rparr>"

section \<open>Strings\<close>

lemma strip_nonempty: "strip s \<noteq> [] \<Longrightarrow> s \<noteq> []"
  by (auto simp: strip_def)

lemma ascii_eq_Nil [simp]: "ascii s = [] \<longleftrightarrow> s = []"
  by (simp add: ascii_def)

lemma strip_noop:
  assumes "s \<noteq> []" "\<not> py_isspace (hd s)" "\<not> py_isspace (last s)"
  shows "strip s = s"
proof -
  have 1: "dropWhile py_isspace s = s"
    using assms by (simp add: dropWhile_eq_self_iff)
  have 2: "dropWhile py_isspace (rev s) = rev s"
    using assms by (simp add: dropWhile_eq_self_iff hd_rev)
  show ?thesis by (simp add: strip_def 1 2)
qed

lemma strip_snoc_space:
  assumes "py_isspace c"
  shows "strip (s @ [c]) = strip s"
proof (cases "\<forall>x\<in>set s. py_isspace x")
  case True
  then have a: "dropWhile py_isspace s = []"
    by (simp only: dropWhile_eq_Nil_conv)
  from True assms have "\<forall>x\<in>set (s @ [c]). py_isspace x"
    by simp
  then have b: "dropWhile py_isspace (s @ [c]) = []"
    by (simp only: dropWhile_eq_Nil_conv)
  show ?thesis unfolding strip_def by (simp only: a b)
next
  case False
  then obtain x where "x \<in> set s" "\<not> py_isspace x" by blast
  then have "dropWhile py_isspace (s @ [c]) = dropWhile py_isspace s @ [c]"
    by (simp add: dropWhile_append1)
  with assms show ?thesis by (simp add: strip_def)
qed

lemma replace_Nil [simp]: "old \<noteq> [] \<Longrightarrow> replace [] old new = []"
  by (simp add: replace.simps)

lemma replace_prefix: "old \<noteq> [] \<Longrightarrow> replace (old @ s) old new = new @ replace s old new"
  by (subst replace.simps) simp

lemma replace_Cons_other:
  "old \<noteq> [] \<Longrightarrow> c \<noteq> hd old \<Longrightarrow> replace (c # s) old new = c # replace s old new"
  by (subst replace.simps) (cases old; auto)

lemma replace_skip:
  "old \<noteq> [] \<Longrightarrow> hd old \<notin> set pre \<Longrightarrow> replace (pre @ s) old new = pre @ replace s old new"
  by (induction pre) (auto simp: replace_Cons_other)

lemma replace_short: "length s < length old \<Longrightarrow> replace s old new = s"
proof (induction s)
  case Nil
  then show ?case by (auto simp: replace.simps)
next
  case (Cons c s)
  from Cons.prems have "take (length old) (c # s) = c # s"
    by simp
  moreover from Cons.prems have "c # s \<noteq> old"
    by auto
  ultimately have "take (length old) (c # s) \<noteq> old"
    by simp
  moreover from Cons.prems have "old \<noteq> []"
    by auto
  moreover from Cons have "replace s old new = s"
    by simp
  ultimately show ?case
    by (subst replace.simps) simp
qed

text \<open>
  A response that is one fenced block: the two fence markers and the line break before
  the closing one are removed, and what is parsed is the body without surrounding white
  space.
\<close>

lemma clean_result_fenced:
  assumes "0x60 \<notin> set body"
  shows "clean_result (ascii ''```json'' @ newline @ body @ newline @ ascii ''```'') = strip body"
proof -
  let ?open = "ascii ''```json'' @ newline"
  let ?close = "ascii ''```''"
  have o: "?open \<noteq> []" "hd ?open = 0x60" "?close \<noteq> []" "hd ?close = 0x60"
    by (simp_all add: ascii_def)
  have nl: "0x60 \<notin> set (body @ newline)"
    using assms by (simp add: newline_def)
  have "replace (?open @ ((body @ newline) @ ?close)) ?open [] = replace ((body @ newline) @ ?close) ?open []"
    using replace_prefix[OF o(1), of "(body @ newline) @ ?close" "[]"] by simp
  also have "\<dots> = (body @ newline) @ replace ?close ?open []"
    using replace_skip[OF o(1), of "body @ newline" ?close "[]"] nl o(2) by simp
  also have "replace ?close ?open [] = ?close"
    by (rule replace_short) (simp add: ascii_def newline_def)
  finally have first: "replace (?open @ body @ newline @ ?close) ?open [] = (body @ newline) @ ?close"
    by simp
  have "replace ((body @ newline) @ ?close) ?close [] = (body @ newline) @ replace ?close ?close []"
    using replace_skip[OF o(3), of "body @ newline" ?close "[]"] nl o(4) by simp
  also have "replace ?close ?close [] = []"
    using replace_prefix[OF o(3), of "[]" "[]"] o(3) by simp
  finally have second: "replace ((body @ newline) @ ?close) ?close [] = body @ newline"
    by simp
  have "py_isspace 0x0A" by (simp add: py_isspace_def)
  then have "strip (body @ newline) = strip body"
    by (simp add: newline_def strip_snoc_space)
  with first second show ?thesis
    by (simp add: clean_result_def)
qed

section \<open>Sequencing and handlers\<close>

lemma seq_emit [simp]: "seq (emit evs) f = (evs @ fst (f ()), snd (f ()))"
  by (simp add: seq_def emit_def split: prod.splits)

lemma seq_ret [simp]: "seq (ret x) f = f x"
  by (simp add: seq_def ret_def split: prod.splits)

lemma seq_raise [simp]: "seq (raise e) f = raise e"
  by (simp add: seq_def raise_def)

lemma seq_stop [simp]: "seq st_stop f = st_stop"
  by (simp add: seq_def st_stop_def)

lemma seq_pair_Inr [simp]: "seq (evs, Inr x) f = (evs @ fst (f x), snd (f x))"
  by (simp add: seq_def split: prod.splits)

lemma seq_pair_Inl [simp]: "seq (evs, Inl s) f = (evs, Inl s)"
  by (simp add: seq_def)

lemma lift_Inr [simp]: "lift (Inr x) = ret x"
  by (simp add: lift_def)

lemma lift_Inl [simp]: "lift (Inl e) = raise e"
  by (simp add: lift_def)

lemma fst_emit [simp]: "fst (emit evs) = evs"
  by (simp add: emit_def)

lemma snd_emit [simp]: "snd (emit evs) = Inr ()"
  by (simp add: emit_def)

lemma fst_raise [simp]: "fst (raise e) = []"
  by (simp add: raise_def)

lemma snd_raise [simp]: "snd (raise e) = Inl (Raised e)"
  by (simp add: raise_def)

lemma fst_stop [simp]: "fst st_stop = []"
  by (simp add: st_stop_def)

lemma snd_stop [simp]: "snd st_stop = Inl StopScript"
  by (simp add: st_stop_def)

lemma fst_ret [simp]: "fst (ret x) = []"
  by (simp add: ret_def)

lemma snd_ret [simp]: "snd (ret x) = Inr x"
  by (simp add: ret_def)

lemma except_Exception_Inr [simp]: "except_Exception (evs, Inr x) h = (evs, Inr x)"
  by (simp add: except_Exception_def)

lemma except_Exception_Stop [simp]:
  "except_Exception (evs, Inl StopScript) h = (evs, Inl StopScript)"
  by (simp add: except_Exception_def)

lemma except_Exception_Raised [simp]:
  "except_Exception (evs, Inl (Raised e)) h = (evs @ fst (h e), snd (h e))"
  by (simp add: except_Exception_def split: prod.splits)

lemma except_JSON_Inr [simp]: "except_JSONDecodeError (evs, Inr x) h = (evs, Inr x)"
  by (simp add: except_JSONDecodeError_def)

lemma except_JSON_Stop [simp]:
  "except_JSONDecodeError (evs, Inl StopScript) h = (evs, Inl StopScript)"
  by (simp add: except_JSONDecodeError_def)

lemma except_JSON_Raised [simp]:
  "except_JSONDecodeError (evs, Inl (Raised e)) h =
     (case e of JSONDecodeError m \<Rightarrow> (evs @ fst (h e), snd (h e)) | _ \<Rightarrow> (evs, Inl (Raised e)))"
  by (simp add: except_JSONDecodeError_def split: prod.splits exn.splits)

section \<open>Text extraction\<close>

lemma extract_body_nonempty: "extract_body env content p = Inr s \<Longrightarrow> s \<noteq> []"
  by (auto simp: extract_body_def Let_def msg_no_text_document_def msg_no_text_pdf_def
        msg_unsupported_def dest: strip_nonempty split: if_splits sum.splits)

lemma strip_nonblank_hd:
  assumes "s \<noteq> []" "\<not> py_isspace (hd s)"
  shows "strip s \<noteq> []"
proof -
  have 1: "dropWhile py_isspace s = s"
    using assms by (simp add: dropWhile_eq_self_iff)
  have "hd s \<in> set (rev s)"
    using assms by simp
  then have "\<exists>x\<in>set (rev s). \<not> py_isspace x"
    using assms(2) by (rule_tac x = "hd s" in bexI)
  then have 2: "dropWhile py_isspace (rev s) \<noteq> []"
    unfolding dropWhile_eq_Nil_conv by simp
  show ?thesis unfolding strip_def 1 using 2 by simp
qed

lemma msg_file_not_found_nonblank: "strip msg_file_not_found \<noteq> []"
  by (rule strip_nonblank_hd) (simp_all add: msg_file_not_found_def ascii_def py_isspace_def)

lemma msg_no_text_document_nonblank: "strip msg_no_text_document \<noteq> []"
  by (rule strip_nonblank_hd) (simp_all add: msg_no_text_document_def ascii_def py_isspace_def)

lemma msg_no_text_pdf_nonblank: "strip msg_no_text_pdf \<noteq> []"
  by (rule strip_nonblank_hd) (simp_all add: msg_no_text_pdf_def ascii_def py_isspace_def)

lemma msg_unsupported_nonblank: "strip msg_unsupported \<noteq> []"
  by (rule strip_nonblank_hd) (simp_all add: msg_unsupported_def ascii_def py_isspace_def)

lemma msg_error_extracting_nonblank: "strip (msg_error_extracting e) \<noteq> []"
  by (rule strip_nonblank_hd) (simp_all add: msg_error_extracting_def ascii_def py_isspace_def)

lemma extract_body_nonblank: "extract_body env content p = Inr s \<Longrightarrow> strip s \<noteq> []"
  by (auto simp: extract_body_def Let_def msg_no_text_document_nonblank msg_no_text_pdf_nonblank
        msg_unsupported_nonblank split: if_splits sum.splits)

lemma extract_nonblank:
  "extract_text_from_file env files p = Inr s \<Longrightarrow> strip s \<noteq> []"
  by (auto simp: extract_text_from_file_def msg_file_not_found_nonblank msg_error_extracting_nonblank
        dest: extract_body_nonblank split: option.splits sum.splits)

lemma extract_total: "\<exists>s. extract_text_from_file env files p = Inr s"
  by (auto simp: extract_text_from_file_def split: option.splits sum.splits)

text \<open>
  C9. \<^verbatim>\<open>extract_text_from_file\<close> is total: for every environment, file system and
  path it returns a string and does not raise, every exception of the libraries being
  turned into a message, and the string it returns is never empty.
\<close>

theorem extract_text_from_file_total:
  "\<exists>s. extract_text_from_file env files file_path = Inr s \<and> s \<noteq> []"
  using extract_total [of env files file_path] extract_nonblank [of env files file_path]
  by (auto dest: strip_nonempty)

section \<open>The screening model\<close>

text \<open>
  C10. When the resume text or the job description text is empty,
  \<^verbatim>\<open>screen_resume\<close> raises the \<^verbatim>\<open>ValueError\<close> and nothing else happens:
  the run has no event, so no prompt was sent to the API.
\<close>

theorem screen_resume_rejects_empty:
  "resume_text = [] \<or> job_description_text = [] \<Longrightarrow>
   screen_resume env self resume_text job_description_text =
     ([], Inl (Raised (ValueError msg_both_required)))"
  by (auto simp: screen_resume_def raise_def)

theorem screen_resume_rejects_empty_witness:
  "screen_resume demo_env demo_model [] (ascii ''Django'') =
     ([], Inl (Raised (ValueError msg_both_required))) \<and>
   screen_resume demo_env demo_model (ascii ''Python developer'') [] =
     ([], Inl (Raised (ValueError msg_both_required)))"
  using screen_resume_rejects_empty [of "[]" "ascii ''Django''" demo_env demo_model]
    screen_resume_rejects_empty [of "ascii ''Python developer''" "[]" demo_env demo_model]
  by simp

section \<open>The decode loop\<close>

lemma decode_loop_result:
  "snd (decode_loop env bs encs) =
     (case find (\<lambda>enc. decode env enc bs \<noteq> None) encs of
        None \<Rightarrow> None | Some enc \<Rightarrow> decode env enc bs)"
  by (induction encs) (auto split: option.splits prod.splits)

lemma decode_loop_events:
  "fst (decode_loop env bs encs) =
     map (\<lambda>enc. Decode enc False) (takeWhile (\<lambda>enc. decode env enc bs = None) encs) @
     (case find (\<lambda>enc. decode env enc bs \<noteq> None) encs of
        None \<Rightarrow> [] | Some enc \<Rightarrow> [Decode enc True])"
  by (induction encs) (auto split: option.splits prod.splits)

lemma decode_jd_eq:
  "decode_jd env bs = (fst (decode_loop env bs encodings_to_try),
                       Inr (snd (decode_loop env bs encodings_to_try)))"
  by (simp add: decode_jd_def split: prod.splits)

lemma decode_loop_all_fail:
  "\<forall>enc\<in>set encs. decode env enc bs = None \<Longrightarrow>
   decode_loop env bs encs = (map (\<lambda>enc. Decode enc False) encs, None)"
  by (induction encs) auto

lemma evaluate_resume_both:
  "evaluate_resume env m files (Some rf) (Some jf) =
     except_Exception (process_files env m files rf jf) (\<lambda>e. emit [StError (msg_processing e)])"
  by (simp add: evaluate_resume_def)

lemma process_files_written:
  assumes "named_temporary_file env (splitext_ext (file_name rf)) = Inr path"
    and "tmp_write env path (file_bytes rf) = None"
    and "extract_text_from_file env (files(path \<mapsto> file_bytes rf)) path = Inr rt"
  shows "process_files env m files rf jf =
     (case snd (decode_loop env (file_bytes jf) encodings_to_try) of
        None \<Rightarrow>
          ([TmpCreate path, TmpWrite path (file_bytes rf), ExtractText path, ReadJD] @
           fst (decode_loop env (file_bytes jf) encodings_to_try) @
           [StError msg_decode_failed], Inl StopScript)
      | Some jt \<Rightarrow>
          ([TmpCreate path, TmpWrite path (file_bytes rf), ExtractText path, ReadJD] @
           fst (decode_loop env (file_bytes jf) encodings_to_try) @
           [Unlink path] @ fst (validate_and_screen env m rt jt),
           snd (validate_and_screen env m rt jt)))"
  using assms
  by (simp add: process_files_def decode_jd_eq split: option.splits)

text \<open>
  C1. The decode loop tries the five encodings in the order of \<open>encodings_to_try\<close>:
  the attempts recorded are the failures before the first encoding that decodes, then
  that encoding, and the text returned is the one it gives. Once the temporary file is
  written, a job description that none of the five decodes ends the run with the decode
  error shown and the script stopped; otherwise the handler goes on with the text of
  the first encoding that decodes.
\<close>

theorem decode_loop_first_success:
  assumes "named_temporary_file env (splitext_ext (file_name rf)) = Inr path"
    and "tmp_write env path (file_bytes rf) = None"
  shows
    "decode_jd env (file_bytes jf) =
       (map (\<lambda>enc. Decode enc False)
          (takeWhile (\<lambda>enc. decode env enc (file_bytes jf) = None) encodings_to_try) @
        (case find (\<lambda>enc. decode env enc (file_bytes jf) \<noteq> None) encodings_to_try of
           None \<Rightarrow> [] | Some enc \<Rightarrow> [Decode enc True]),
        Inr (case find (\<lambda>enc. decode env enc (file_bytes jf) \<noteq> None) encodings_to_try of
               None \<Rightarrow> None | Some enc \<Rightarrow> decode env enc (file_bytes jf))) \<and>
     ((\<forall>enc\<in>set encodings_to_try. decode env enc (file_bytes jf) = None) \<longrightarrow>
        evaluate_resume env m files (Some rf) (Some jf) =
          ([TmpCreate path, TmpWrite path (file_bytes rf), ExtractText path, ReadJD,
            Decode UTF_8 False, Decode UTF_8_SIG False, Decode WINDOWS_1252 False,
            Decode ISO_8859_1 False, Decode CP1252 False, StError msg_decode_failed],
           Inl StopScript)) \<and>
     (\<forall>enc jd_text.
        find (\<lambda>enc. decode env enc (file_bytes jf) \<noteq> None) encodings_to_try = Some enc \<and>
        decode env enc (file_bytes jf) = Some jd_text \<longrightarrow>
        (\<exists>resume_text.
           extract_text_from_file env (files(path \<mapsto> file_bytes rf)) path = Inr resume_text \<and>
           process_files env m files rf jf =
             ([TmpCreate path, TmpWrite path (file_bytes rf), ExtractText path, ReadJD] @
              fst (decode_jd env (file_bytes jf)) @ [Unlink path] @
              fst (validate_and_screen env m resume_text jd_text),
              snd (validate_and_screen env m resume_text jd_text))))"
proof (intro conjI allI impI)
  show "decode_jd env (file_bytes jf) =
       (map (\<lambda>enc. Decode enc False)
          (takeWhile (\<lambda>enc. decode env enc (file_bytes jf) = None) encodings_to_try) @
        (case find (\<lambda>enc. decode env enc (file_bytes jf) \<noteq> None) encodings_to_try of
           None \<Rightarrow> [] | Some enc \<Rightarrow> [Decode enc True]),
        Inr (case find (\<lambda>enc. decode env enc (file_bytes jf) \<noteq> None) encodings_to_try of
               None \<Rightarrow> None | Some enc \<Rightarrow> decode env enc (file_bytes jf)))"
    by (simp only: decode_jd_eq decode_loop_events decode_loop_result)
next
  obtain rt where rt: "extract_text_from_file env (files(path \<mapsto> file_bytes rf)) path = Inr rt"
    using extract_total by blast
  assume "\<forall>enc\<in>set encodings_to_try. decode env enc (file_bytes jf) = None"
  then have "decode_loop env (file_bytes jf) encodings_to_try =
      (map (\<lambda>enc. Decode enc False) encodings_to_try, None)"
    by (rule decode_loop_all_fail)
  then show "evaluate_resume env m files (Some rf) (Some jf) =
          ([TmpCreate path, TmpWrite path (file_bytes rf), ExtractText path, ReadJD,
            Decode UTF_8 False, Decode UTF_8_SIG False, Decode WINDOWS_1252 False,
            Decode ISO_8859_1 False, Decode CP1252 False, StError msg_decode_failed],
           Inl StopScript)"
    by (simp add: evaluate_resume_both process_files_written [OF assms rt] encodings_to_try_def)
next
  fix enc jd_text
  obtain rt where rt: "extract_text_from_file env (files(path \<mapsto> file_bytes rf)) path = Inr rt"
    using extract_total by blast
  assume "find (\<lambda>enc. decode env enc (file_bytes jf) \<noteq> None) encodings_to_try = Some enc \<and>
        decode env enc (file_bytes jf) = Some jd_text"
  then have "snd (decode_loop env (file_bytes jf) encodings_to_try) = Some jd_text"
    by (simp add: decode_loop_result)
  then have "process_files env m files rf jf =
             ([TmpCreate path, TmpWrite path (file_bytes rf), ExtractText path, ReadJD] @
              fst (decode_jd env (file_bytes jf)) @ [Unlink path] @
              fst (validate_and_screen env m rt jd_text),
              snd (validate_and_screen env m rt jd_text))"
    by (simp add: process_files_written [OF assms rt] decode_jd_eq)
  with rt show "\<exists>resume_text.
           extract_text_from_file env (files(path \<mapsto> file_bytes rf)) path = Inr resume_text \<and>
           process_files env m files rf jf =
             ([TmpCreate path, TmpWrite path (file_bytes rf), ExtractText path, ReadJD] @
              fst (decode_jd env (file_bytes jf)) @ [Unlink path] @
              fst (validate_and_screen env m resume_text jd_text),
              snd (validate_and_screen env m resume_text jd_text))"
    by blast
qed

section \<open>Facts about the example environments\<close>

lemma demo_suffix: "splitext_ext (file_name demo_resume) = ascii ''.pdf''"
  by (simp add: splitext_ext_def demo_resume_def ascii_def)

lemma demo_tmp: "named_temporary_file demo_env (splitext_ext (file_name demo_resume)) = Inr demo_tmp_path"
  by (simp add: demo_suffix demo_env_def demo_tmp_path_def ascii_def)

lemma demo_write: "tmp_write demo_env p bs = None"
  by (simp add: demo_env_def)

lemma demo_decode_ascii: "decode demo_env enc (file_bytes demo_jd) = Some (ascii ''Django'')"
  by (simp add: demo_env_def demo_decode_def demo_jd_def ascii_bytes_def ascii_def)

lemma demo_decode_latin1:
  "decode demo_env enc (file_bytes demo_jd_latin1) =
     (if enc = UTF_8 \<or> enc = UTF_8_SIG then None else Some demo_latin1_text)"
  by (cases enc) (simp_all add: demo_env_def demo_decode_def demo_jd_latin1_def ascii_bytes_def
        ascii_def demo_latin1_text_def)

theorem decode_loop_first_success_witness:
  "decode_jd demo_env (file_bytes demo_jd_latin1) =
     ([Decode UTF_8 False, Decode UTF_8_SIG False, Decode WINDOWS_1252 True],
      Inr (Some demo_latin1_text)) \<and>
   evaluate_resume undecodable_env demo_model Map.empty (Some demo_resume) (Some demo_jd) =
     ([TmpCreate demo_tmp_path, TmpWrite demo_tmp_path (file_bytes demo_resume),
       ExtractText demo_tmp_path, ReadJD,
       Decode UTF_8 False, Decode UTF_8_SIG False, Decode WINDOWS_1252 False,
       Decode ISO_8859_1 False, Decode CP1252 False, StError msg_decode_failed],
      Inl StopScript) \<and>
   (\<exists>resume_text.
      extract_text_from_file demo_env (Map.empty(demo_tmp_path \<mapsto> file_bytes demo_resume))
        demo_tmp_path = Inr resume_text \<and>
      process_files demo_env demo_model Map.empty demo_resume demo_jd_latin1 =
        ([TmpCreate demo_tmp_path, TmpWrite demo_tmp_path (file_bytes demo_resume),
          ExtractText demo_tmp_path, ReadJD] @
         fst (decode_jd demo_env (file_bytes demo_jd_latin1)) @ [Unlink demo_tmp_path] @
         fst (validate_and_screen demo_env demo_model resume_text
                demo_latin1_text),
         snd (validate_and_screen demo_env demo_model resume_text
                demo_latin1_text)))"
proof -
  have tmp_u: "named_temporary_file undecodable_env (splitext_ext (file_name demo_resume)) =
      Inr demo_tmp_path"
    using demo_tmp by (simp add: undecodable_env_def)
  have wr_u: "tmp_write undecodable_env demo_tmp_path (file_bytes demo_resume) = None"
    by (simp add: undecodable_env_def demo_write)
  have none_u: "\<forall>enc\<in>set encodings_to_try. decode undecodable_env enc (file_bytes demo_jd) = None"
    by (simp add: undecodable_env_def)
  have first: "find (\<lambda>enc. decode demo_env enc (file_bytes demo_jd_latin1) \<noteq> None) encodings_to_try =
      Some WINDOWS_1252"
    by (simp add: demo_decode_latin1 encodings_to_try_def)
  have before: "takeWhile (\<lambda>enc. decode demo_env enc (file_bytes demo_jd_latin1) = None) encodings_to_try =
      [UTF_8, UTF_8_SIG]"
    by (simp add: demo_decode_latin1 encodings_to_try_def)
  have decoded: "decode demo_env WINDOWS_1252 (file_bytes demo_jd_latin1) = Some demo_latin1_text"
    by (simp add: demo_decode_latin1)
  note on_latin1 =
    decode_loop_first_success [where env = demo_env and rf = demo_resume and jf = demo_jd_latin1
      and m = demo_model and files = Map.empty, OF demo_tmp demo_write]
  note on_undecodable =
    decode_loop_first_success [where env = undecodable_env and rf = demo_resume and jf = demo_jd
      and m = demo_model and files = Map.empty, OF tmp_u wr_u]
  have "decode_jd demo_env (file_bytes demo_jd_latin1) =
     ([Decode UTF_8 False, Decode UTF_8_SIG False, Decode WINDOWS_1252 True],
      Inr (Some demo_latin1_text))"
    using on_latin1 [THEN conjunct1] unfolding first before by (simp add: decoded)
  moreover from on_undecodable none_u
  have "evaluate_resume undecodable_env demo_model Map.empty (Some demo_resume) (Some demo_jd) =
     ([TmpCreate demo_tmp_path, TmpWrite demo_tmp_path (file_bytes demo_resume),
       ExtractText demo_tmp_path, ReadJD,
       Decode UTF_8 False, Decode UTF_8_SIG False, Decode WINDOWS_1252 False,
       Decode ISO_8859_1 False, Decode CP1252 False, StError msg_decode_failed],
      Inl StopScript)"
    by blast
  moreover from on_latin1 first decoded
  have "\<exists>resume_text.
      extract_text_from_file demo_env (Map.empty(demo_tmp_path \<mapsto> file_bytes demo_resume))
        demo_tmp_path = Inr resume_text \<and>
      process_files demo_env demo_model Map.empty demo_resume demo_jd_latin1 =
        ([TmpCreate demo_tmp_path, TmpWrite demo_tmp_path (file_bytes demo_resume),
          ExtractText demo_tmp_path, ReadJD] @
         fst (decode_jd demo_env (file_bytes demo_jd_latin1)) @ [Unlink demo_tmp_path] @
         fst (validate_and_screen demo_env demo_model resume_text demo_latin1_text),
         snd (validate_and_screen demo_env demo_model resume_text demo_latin1_text))"
    by blast
  ultimately show ?thesis
    by blast
qed

section \<open>Start of the script\<close>


lemma app_with_model:
  "init_model env = Inr model \<Longrightarrow>
   app env files req =
     seq (emit (page_header @ upload_widgets)) (\<lambda>_.
     seq (if button_clicked req
          then evaluate_resume env model files (resume_upload req) (jd_upload req)
          else ret ()) (\<lambda>_. emit [Sidebar]))"
  by (simp add: app_def load_model_def)


lemma demo_key: "read_api_key demo_env = Inr (Some (ascii ''k3y''))"
  by (simp add: read_api_key_def demo_env_def)

lemma demo_init: "init_model demo_env = Inr demo_model"
  by (simp add: init_model_def demo_key demo_model_def)


section \<open>The cases of text extraction\<close>

text \<open>
  C4, as amended. A file with the extension of a Word document or of a PDF (in any
  letter case) that the library reads without an exception gives a non-empty string: the
  extracted text when it has a character that is not white space, and otherwise the
  placeholder for a document without text. A path with no file gives the text
  \<^verbatim>\<open>File not found.\<close>, any other extension the text for an unsupported format, and
  an exception of the library its message after \<^verbatim>\<open>Error extracting text: \<close>; no
  case raises.
\<close>

theorem extract_text_from_file_cases:
  "(files p = None \<longrightarrow> extract_text_from_file env files p = Inr msg_file_not_found) \<and>
   (files p = Some content \<and> endswith (lower p) (ascii ''.docx'') \<and>
    docx_paragraphs env content = Inr paras \<longrightarrow>
      extract_text_from_file env files p =
        Inr (if strip (join newline (filter (\<lambda>para. strip para \<noteq> []) paras)) \<noteq> []
             then join newline (filter (\<lambda>para. strip para \<noteq> []) paras)
             else msg_no_text_document)) \<and>
   (files p = Some content \<and> \<not> endswith (lower p) (ascii ''.docx'') \<and>
    endswith (lower p) (ascii ''.pdf'') \<and> pdf_page_texts env content = Inr pages \<longrightarrow>
      extract_text_from_file env files p =
        Inr (if strip (join newline (filter (\<lambda>page_text. page_text \<noteq> []) pages)) \<noteq> []
             then join newline (filter (\<lambda>page_text. page_text \<noteq> []) pages)
             else msg_no_text_pdf)) \<and>
   (files p = Some content \<and> \<not> endswith (lower p) (ascii ''.docx'') \<and>
    \<not> endswith (lower p) (ascii ''.pdf'') \<longrightarrow>
      extract_text_from_file env files p = Inr msg_unsupported) \<and>
   (files p = Some content \<and> endswith (lower p) (ascii ''.docx'') \<and>
    docx_paragraphs env content = Inl e \<longrightarrow>
      extract_text_from_file env files p = Inr (msg_error_extracting e)) \<and>
   (files p = Some content \<and> \<not> endswith (lower p) (ascii ''.docx'') \<and>
    endswith (lower p) (ascii ''.pdf'') \<and> pdf_page_texts env content = Inl e \<longrightarrow>
      extract_text_from_file env files p = Inr (msg_error_extracting e)) \<and>
   (\<forall>s. extract_text_from_file env files p = Inr s \<longrightarrow> s \<noteq> [])"
proof (intro conjI impI allI)
  fix s
  assume "extract_text_from_file env files p = Inr s"
  then show "s \<noteq> []"
    by (auto dest: extract_nonblank strip_nonempty)
qed (simp_all add: extract_text_from_file_def extract_body_def Let_def)

lemma demo_pdf_suffix:
  "\<not> endswith (lower demo_tmp_path) (ascii ''.docx'')" "endswith (lower demo_tmp_path) (ascii ''.pdf'')"
  by (simp_all add: endswith_def lower_def lower_cp_def demo_tmp_path_def ascii_def)

lemma demo_docx_suffix: "endswith (lower demo_docx_path) (ascii ''.docx'')"
  by (simp add: endswith_def lower_def lower_cp_def demo_docx_path_def ascii_def)

lemma demo_txt_suffix:
  "\<not> endswith (lower demo_txt_path) (ascii ''.docx'')" "\<not> endswith (lower demo_txt_path) (ascii ''.pdf'')"
  by (simp_all add: endswith_def lower_def lower_cp_def demo_txt_path_def ascii_def)

lemma demo_text_nonblank: "strip (ascii ''Python developer'') \<noteq> []"
  by (rule strip_nonblank_hd) (simp_all add: ascii_def py_isspace_def)

lemma blank_para: "strip (ascii '' '') = []"
  by (simp add: strip_def ascii_def py_isspace_def)

lemma demo_files_pdf: "demo_files demo_tmp_path = Some (ascii_bytes ''%PDF-1.7'')"
  by (simp add: demo_files_def demo_tmp_path_def demo_docx_path_def demo_txt_path_def ascii_def)

lemma demo_files_docx: "demo_files demo_docx_path = Some (ascii_bytes ''PK'')"
  by (simp add: demo_files_def demo_tmp_path_def demo_docx_path_def demo_txt_path_def ascii_def)

lemma demo_files_txt: "demo_files demo_txt_path = Some (ascii_bytes ''notes'')"
  by (simp add: demo_files_def demo_tmp_path_def demo_docx_path_def demo_txt_path_def ascii_def)

theorem extract_text_from_file_cases_witness:
  "extract_text_from_file demo_env Map.empty demo_tmp_path = Inr msg_file_not_found \<and>
   extract_text_from_file demo_env demo_files demo_docx_path = Inr (ascii ''Python developer'') \<and>
   extract_text_from_file demo_env demo_files demo_tmp_path = Inr (ascii ''Python developer'') \<and>
   extract_text_from_file scanned_env demo_files demo_tmp_path = Inr msg_no_text_pdf \<and>
   extract_text_from_file demo_env demo_files demo_txt_path = Inr msg_unsupported \<and>
   extract_text_from_file broken_env demo_files demo_tmp_path =
     Inr (msg_error_extracting (OtherException (ascii ''EOF marker not found''))) \<and>
   ascii ''Python developer'' \<noteq> []"
proof -
  have 1: "extract_text_from_file demo_env Map.empty demo_tmp_path = Inr msg_file_not_found"
    using extract_text_from_file_cases [where files = Map.empty and p = demo_tmp_path and env = demo_env]
    by simp
  have 2: "extract_text_from_file demo_env demo_files demo_docx_path = Inr (ascii ''Python developer'')"
    using extract_text_from_file_cases [where files = demo_files and p = demo_docx_path
        and env = demo_env and content = "ascii_bytes ''PK''"
        and paras = "[ascii ''Python developer'', ascii '' '']"]
      demo_files_docx demo_docx_suffix
    by (simp add: demo_text_nonblank blank_para) (simp add: demo_env_def)
  have 3: "extract_text_from_file demo_env demo_files demo_tmp_path = Inr (ascii ''Python developer'')"
    using extract_text_from_file_cases [where files = demo_files and p = demo_tmp_path
        and env = demo_env and content = "ascii_bytes ''%PDF-1.7''"
        and pages = "[ascii ''Python developer'']"]
      demo_files_pdf demo_pdf_suffix
    by (simp add: demo_text_nonblank) (simp add: demo_env_def)
  have 4: "extract_text_from_file scanned_env demo_files demo_tmp_path = Inr msg_no_text_pdf"
    using extract_text_from_file_cases [where files = demo_files and p = demo_tmp_path
        and env = scanned_env and content = "ascii_bytes ''%PDF-1.7''" and pages = "[[]]"]
      demo_files_pdf demo_pdf_suffix
    by (simp add: strip_def) (simp add: scanned_env_def)
  have 5: "extract_text_from_file demo_env demo_files demo_txt_path = Inr msg_unsupported"
    using extract_text_from_file_cases [where files = demo_files and p = demo_txt_path
        and env = demo_env and content = "ascii_bytes ''notes''"]
      demo_files_txt demo_txt_suffix
    by simp
  have 6: "extract_text_from_file broken_env demo_files demo_tmp_path =
     Inr (msg_error_extracting (OtherException (ascii ''EOF marker not found'')))"
    using extract_text_from_file_cases [where files = demo_files and p = demo_tmp_path
        and env = broken_env and content = "ascii_bytes ''%PDF-1.7''"
        and e = "OtherException (ascii ''EOF marker not found'')"]
      demo_files_pdf demo_pdf_suffix
    by simp (simp add: broken_env_def)
  have 7: "ascii ''Python developer'' \<noteq> []"
    using extract_text_from_file_cases [where files = demo_files and p = demo_tmp_path
        and env = demo_env] 3
    by blast
  from 1 2 3 4 5 6 7 show ?thesis
    by blast
qed

text \<open>
  C4 as stated fails on a valid PDF without a text layer: the library reads it, its one
  page has no text, and what is returned is the placeholder, not text of the file.
\<close>

theorem textless_pdf_counterexample:
  "demo_files demo_tmp_path = Some (ascii_bytes ''%PDF-1.7'') \<and>
   endswith (lower demo_tmp_path) (ascii ''.pdf'') \<and>
   pdf_page_texts scanned_env (ascii_bytes ''%PDF-1.7'') = Inr [[]] \<and>
   extract_text_from_file scanned_env demo_files demo_tmp_path =
     Inr (ascii ''No text found in PDF.'')"
proof -
  have "extract_body scanned_env (ascii_bytes ''%PDF-1.7'') demo_tmp_path = Inr msg_no_text_pdf"
    by (simp add: extract_body_def demo_pdf_suffix scanned_env_def strip_def)
  then show ?thesis
    by (simp add: extract_text_from_file_def demo_files_pdf demo_pdf_suffix msg_no_text_pdf_def
        scanned_env_def)
qed

section \<open>Showing the result\<close>

lemma show_skills_falsy: "\<not> truthy v \<Longrightarrow> show_skills v t = emit [Write (JStr t)]"
  by (simp add: show_skills_def)

lemma show_skills_iterable:
  "truthy v \<Longrightarrow> iter_items v = Some xs \<Longrightarrow> show_skills v t = emit (map Bullet xs)"
  by (simp add: show_skills_def py_iter_def)

lemma show_skills_not_iterable:
  "truthy v \<Longrightarrow> iter_items v = None \<Longrightarrow>
   show_skills v t = raise (TypeError (ascii (quoted (type_name v) @ '' object is not iterable'')))"
  by (simp add: show_skills_def py_iter_def)

lemma show_skills_cases:
  "show_skills v t = emit [Write (JStr t)] \<or>
   (\<exists>xs. show_skills v t = emit (map Bullet xs)) \<or>
   (\<exists>m. show_skills v t = raise (TypeError m))"
  by (cases "truthy v"; cases "iter_items v")
     (auto simp: show_skills_falsy show_skills_iterable show_skills_not_iterable)

lemma show_skills_no_api: "\<forall>ev\<in>set (fst (show_skills v t)). \<not> is_api_call ev"
  using show_skills_cases [of v t] by auto

lemma display_result_dict:
  "display_result (JDict items) =
     seq (emit [StSuccess msg_complete, Columns 3,
                Metric (ascii ''Match Score'') (get_default items (ascii ''score'') (JInt 0)),
                Subheader hdr_summary,
                Write (get_default items (ascii ''summary'') (JStr default_summary)),
                Columns 2, Subheader hdr_matched]) (\<lambda>_.
     seq (show_skills (get_default items (ascii ''matched_skills'') (JList [])) no_matched_text) (\<lambda>_.
     seq (emit [Subheader hdr_missing]) (\<lambda>_.
     seq (show_skills (get_default items (ascii ''missing_skills'') (JList [])) no_missing_text) (\<lambda>_.
     emit [Expander hdr_raw_json, Json (JDict items)]))))"
  by (simp add: display_result_def dict_get_def)

lemma display_result_not_dict:
  "\<forall>items. v \<noteq> JDict items \<Longrightarrow>
   display_result v =
     ([StSuccess msg_complete, Columns 3],
      Inl (Raised (AttributeError
        (ascii (quoted (type_name v) @ '' object has no attribute '' @ quoted ''get'')))))"
  by (cases v) (simp_all add: display_result_def dict_get_def raise_def)

section \<open>From the response to the display\<close>

lemma clean_result_plain:
  assumes "0x60 \<notin> set s"
  shows "clean_result s = strip s"
proof -
  have o: "ascii ''```json'' @ newline \<noteq> []" "hd (ascii ''```json'' @ newline) = 0x60"
    "ascii ''```'' \<noteq> []" "hd (ascii ''```'') = 0x60"
    by (simp_all add: ascii_def)
  have 1: "replace s (ascii ''```json'' @ newline) [] = s"
    using replace_skip [OF o(1), of s "[]" "[]"] assms o(1,2) by simp
  have 2: "replace s (ascii ''```'') [] = s"
    using replace_skip [OF o(3), of s "[]" "[]"] assms o(3,4) by simp
  show ?thesis
    by (simp add: clean_result_def 1 2)
qed

lemma process_response_empty: "process_response env [] = emit [StError msg_no_response]"
  by (simp add: process_response_def)

lemma process_response_loaded:
  assumes "result_text \<noteq> []"
    and "json_loads env (clean_result result_text) = Inr v"
  shows "process_response env result_text =
     except_JSONDecodeError
       (JsonLoads (clean_result result_text) # fst (display_result v), snd (display_result v))
       (\<lambda>e. emit [StError (msg_parse_failed e), Subheader (ascii ''Raw Response:''),
                  Code result_text])"
  using assms by (simp add: process_response_def)

lemma process_response_not_loaded:
  assumes "result_text \<noteq> []"
    and "json_loads env (clean_result result_text) = Inl e"
  shows "process_response env result_text =
     (case e of
        JSONDecodeError m \<Rightarrow>
          ([JsonLoads (clean_result result_text), StError (msg_parse_failed e),
            Subheader (ascii ''Raw Response:''), Code result_text], Inr ())
      | _ \<Rightarrow> ([JsonLoads (clean_result result_text)], Inl (Raised e)))"
  using assms by (simp add: process_response_def raise_def split: exn.splits)

lemma display_result_shown:
  assumes "\<not> truthy (get_default items (ascii ''matched_skills'') (JList [])) \<or>
      iter_items (get_default items (ascii ''matched_skills'') (JList [])) = Some matched"
    and "\<not> truthy (get_default items (ascii ''missing_skills'') (JList [])) \<or>
      iter_items (get_default items (ascii ''missing_skills'') (JList [])) = Some missing"
  shows "display_result (JDict items) =
      ([StSuccess msg_complete, Columns 3,
        Metric (ascii ''Match Score'') (get_default items (ascii ''score'') (JInt 0)),
        Subheader hdr_summary,
        Write (get_default items (ascii ''summary'') (JStr default_summary)),
        Columns 2, Subheader hdr_matched] @
       (if truthy (get_default items (ascii ''matched_skills'') (JList []))
        then map Bullet matched else [Write (JStr no_matched_text)]) @
       [Subheader hdr_missing] @
       (if truthy (get_default items (ascii ''missing_skills'') (JList []))
        then map Bullet missing else [Write (JStr no_missing_text)]) @
       [Expander hdr_raw_json, Json (JDict items)], Inr ())"
proof -
  have m: "show_skills (get_default items (ascii ''matched_skills'') (JList [])) no_matched_text =
      emit (if truthy (get_default items (ascii ''matched_skills'') (JList []))
            then map Bullet matched else [Write (JStr no_matched_text)])"
    using assms(1) by (auto simp: show_skills_falsy show_skills_iterable)
  have n: "show_skills (get_default items (ascii ''missing_skills'') (JList [])) no_missing_text =
      emit (if truthy (get_default items (ascii ''missing_skills'') (JList []))
            then map Bullet missing else [Write (JStr no_missing_text)])"
    using assms(2) by (auto simp: show_skills_falsy show_skills_iterable)
  show ?thesis
    unfolding display_result_dict m n by simp
qed

text \<open>
  C3, as amended. For a non-empty response whose text without the fence markers parses
  as a JSON object, in which what stands under \<^verbatim>\<open>matched_skills\<close> and under
  \<^verbatim>\<open>missing_skills\<close> is false as a condition or can be iterated, the handler shows
  the score, the summary and the two lists of skills, each field taken from the object
  and replaced by its default when the object lacks it: 0, the text
  \<^verbatim>\<open>No summary available\<close>, and the empty list, for which the line saying that
  there is no skill is written. What is parsed is \<open>clean_result\<close> of the response; for a
  response that is one fenced block this is its body without surrounding white space.
\<close>

theorem response_rendering:
  assumes "result_text \<noteq> []"
    and "json_loads env (clean_result result_text) = Inr (JDict items)"
    and "\<not> truthy (get_default items (ascii ''matched_skills'') (JList [])) \<or>
      iter_items (get_default items (ascii ''matched_skills'') (JList [])) = Some matched"
    and "\<not> truthy (get_default items (ascii ''missing_skills'') (JList [])) \<or>
      iter_items (get_default items (ascii ''missing_skills'') (JList [])) = Some missing"
  shows
    "process_response env result_text =
      ([JsonLoads (clean_result result_text), StSuccess msg_complete, Columns 3,
        Metric (ascii ''Match Score'') (get_default items (ascii ''score'') (JInt 0)),
        Subheader hdr_summary,
        Write (get_default items (ascii ''summary'') (JStr default_summary)),
        Columns 2, Subheader hdr_matched] @
       (if truthy (get_default items (ascii ''matched_skills'') (JList []))
        then map Bullet matched else [Write (JStr no_matched_text)]) @
       [Subheader hdr_missing] @
       (if truthy (get_default items (ascii ''missing_skills'') (JList []))
        then map Bullet missing else [Write (JStr no_missing_text)]) @
       [Expander hdr_raw_json, Json (JDict items)], Inr ()) \<and>
     (map_of items (ascii ''score'') = None \<longrightarrow>
        get_default items (ascii ''score'') (JInt 0) = JInt 0) \<and>
     (map_of items (ascii ''summary'') = None \<longrightarrow>
        get_default items (ascii ''summary'') (JStr default_summary) = JStr default_summary) \<and>
     (map_of items (ascii ''matched_skills'') = None \<longrightarrow>
        get_default items (ascii ''matched_skills'') (JList []) = JList [] \<and>
        \<not> truthy (get_default items (ascii ''matched_skills'') (JList []))) \<and>
     (map_of items (ascii ''missing_skills'') = None \<longrightarrow>
        get_default items (ascii ''missing_skills'') (JList []) = JList [] \<and>
        \<not> truthy (get_default items (ascii ''missing_skills'') (JList []))) \<and>
     (\<forall>body. 0x60 \<notin> set body \<longrightarrow>
        clean_result (ascii ''```json'' @ newline @ body @ newline @ ascii ''```'') = strip body)"
proof (intro conjI impI allI)
  show "process_response env result_text =
      ([JsonLoads (clean_result result_text), StSuccess msg_complete, Columns 3,
        Metric (ascii ''Match Score'') (get_default items (ascii ''score'') (JInt 0)),
        Subheader hdr_summary,
        Write (get_default items (ascii ''summary'') (JStr default_summary)),
        Columns 2, Subheader hdr_matched] @
       (if truthy (get_default items (ascii ''matched_skills'') (JList []))
        then map Bullet matched else [Write (JStr no_matched_text)]) @
       [Subheader hdr_missing] @
       (if truthy (get_default items (ascii ''missing_skills'') (JList []))
        then map Bullet missing else [Write (JStr no_missing_text)]) @
       [Expander hdr_raw_json, Json (JDict items)], Inr ())"
    unfolding process_response_loaded [OF assms(1,2)] display_result_shown [OF assms(3,4)]
    by simp
next
  fix body :: pystr
  assume "0x60 \<notin> set body"
  then show "clean_result (ascii ''```json'' @ newline @ body @ newline @ ascii ''```'') = strip body"
    by (rule clean_result_fenced)
qed (simp_all add: get_default_def)

lemma demo_clean: "clean_result demo_response = demo_object_text"
proof -
  have "0x60 \<notin> set demo_object_text"
    by (simp add: demo_object_text_def ascii_def)
  then have "clean_result demo_response = strip demo_object_text"
    unfolding demo_response_def by (rule clean_result_fenced)
  also have "\<dots> = demo_object_text"
    by (rule strip_noop) (simp_all add: demo_object_text_def ascii_def py_isspace_def)
  finally show ?thesis .
qed

lemma demo_response_nonempty: "demo_response \<noteq> []"
  by (simp add: demo_response_def)

lemma demo_loads: "json_loads demo_env demo_object_text = Inr (JDict demo_object)"
  by (simp add: demo_env_def demo_json_loads_def)

lemma demo_fields:
  "get_default demo_object (ascii ''score'') d1 = JInt 150"
  "get_default demo_object (ascii ''summary'') d2 = d2"
  "get_default demo_object (ascii ''matched_skills'') d3 = JList [JStr (ascii ''Python'')]"
  "get_default demo_object (ascii ''missing_skills'') d4 = d4"
  by (simp_all add: get_default_def demo_object_def ascii_def)

theorem response_rendering_witness:
  "clean_result demo_response = demo_object_text \<and>
   process_response demo_env demo_response =
     ([JsonLoads demo_object_text, StSuccess msg_complete, Columns 3,
       Metric (ascii ''Match Score'') (JInt 150), Subheader hdr_summary,
       Write (JStr default_summary), Columns 2, Subheader hdr_matched,
       Bullet (JStr (ascii ''Python'')), Subheader hdr_missing,
       Write (JStr no_missing_text), Expander hdr_raw_json, Json (JDict demo_object)],
      Inr ())"
proof -
  have loads: "json_loads demo_env (clean_result demo_response) = Inr (JDict demo_object)"
    by (simp add: demo_clean demo_loads)
  have matched: "\<not> truthy (get_default demo_object (ascii ''matched_skills'') (JList [])) \<or>
      iter_items (get_default demo_object (ascii ''matched_skills'') (JList [])) =
        Some [JStr (ascii ''Python'')]"
    by (simp add: demo_fields)
  have missing: "\<not> truthy (get_default demo_object (ascii ''missing_skills'') (JList [])) \<or>
      iter_items (get_default demo_object (ascii ''missing_skills'') (JList [])) = Some []"
    by (simp add: demo_fields)
  note shown = response_rendering [OF demo_response_nonempty loads matched missing]
  have "0x60 \<notin> set demo_object_text"
    by (simp add: demo_object_text_def ascii_def)
  with shown have "clean_result demo_response = strip demo_object_text"
    unfolding demo_response_def by blast
  moreover have "strip demo_object_text = demo_object_text"
    by (rule strip_noop) (simp_all add: demo_object_text_def ascii_def py_isspace_def)
  moreover from shown have "process_response demo_env demo_response =
     ([JsonLoads demo_object_text, StSuccess msg_complete, Columns 3,
       Metric (ascii ''Match Score'') (JInt 150), Subheader hdr_summary,
       Write (JStr default_summary), Columns 2, Subheader hdr_matched,
       Bullet (JStr (ascii ''Python'')), Subheader hdr_missing,
       Write (JStr no_missing_text), Expander hdr_raw_json, Json (JDict demo_object)],
      Inr ())"
    by (simp add: demo_fields demo_clean)
  ultimately show ?thesis
    by simp
qed

lemma demo_refusal_clean: "clean_result demo_refusal = demo_refusal"
proof -
  have "0x60 \<notin> set demo_refusal"
    by (simp add: demo_refusal_def ascii_def)
  then have "clean_result demo_refusal = strip demo_refusal"
    by (rule clean_result_plain)
  also have "\<dots> = demo_refusal"
    by (rule strip_noop) (simp_all add: demo_refusal_def ascii_def py_isspace_def)
  finally show ?thesis .
qed

text \<open>
  C3 as stated fails on a response that is not JSON: the parser raises, the handler
  shows the parse error and the raw response, and none of the four fields is shown.
\<close>

theorem response_not_json_counterexample:
  "generate_content refusing_env (api_key demo_model) (build_prompt (ascii ''Python developer'') (ascii ''Django''))
     = Inr demo_refusal \<and>
   json_loads refusing_env (clean_result demo_refusal) =
     Inl (JSONDecodeError (ascii ''Expecting value: line 1 column 1 (char 0)'')) \<and>
   process_response refusing_env demo_refusal =
     ([JsonLoads demo_refusal,
       StError (msg_parse_failed (JSONDecodeError (ascii ''Expecting value: line 1 column 1 (char 0)''))),
       Subheader (ascii ''Raw Response:''), Code demo_refusal], Inr ())"
proof -
  have ne: "demo_refusal \<noteq> []"
    by (simp add: demo_refusal_def)
  have differ: "demo_refusal \<noteq> demo_object_text" "demo_refusal \<noteq> demo_full_text"
    by (simp_all add: demo_refusal_def demo_object_text_def demo_full_text_def ascii_def)
  have loads: "json_loads refusing_env (clean_result demo_refusal) =
     Inl (JSONDecodeError (ascii ''Expecting value: line 1 column 1 (char 0)''))"
    by (simp add: demo_refusal_clean refusing_env_def demo_env_def demo_json_loads_def differ)
  have gen: "generate_content refusing_env k p = Inr demo_refusal" for k p
    by (simp add: refusing_env_def)
  show ?thesis
    using process_response_not_loaded [OF ne loads] loads gen
    by (simp add: demo_refusal_clean)
qed

section \<open>The shape of a run\<close>

lemma display_result_outcome:
  "snd (display_result v) = Inr () \<or>
   (\<exists>m. snd (display_result v) = Inl (Raised (AttributeError m))) \<or>
   (\<exists>m. snd (display_result v) = Inl (Raised (TypeError m)))"
proof (cases "\<exists>items. v = JDict items")
  case True
  then obtain items where v: "v = JDict items" by blast
  show ?thesis
    using show_skills_cases [of "get_default items (ascii ''matched_skills'') (JList [])" no_matched_text]
      show_skills_cases [of "get_default items (ascii ''missing_skills'') (JList [])" no_missing_text]
    unfolding v display_result_dict
    by (elim disjE exE) (simp_all add: raise_def emit_def)
next
  case False
  then show ?thesis
    by (simp add: display_result_not_dict)
qed

lemma seq_events_pred:
  assumes "\<forall>ev\<in>set (fst m). P ev" and "\<And>x. \<forall>ev\<in>set (fst (f x)). P ev"
  shows "\<forall>ev\<in>set (fst (seq m f)). P ev"
proof (cases m)
  case (Pair evs r)
  show ?thesis
  proof (cases r)
    case (Inl s)
    with Pair assms(1) show ?thesis by simp
  next
    case (Inr x)
    with Pair assms(1) assms(2) [of x] show ?thesis by (simp add: ball_Un)
  qed
qed

lemma display_result_no_api: "\<forall>ev\<in>set (fst (display_result v)). \<not> is_api_call ev"
proof (cases "\<exists>items. v = JDict items")
  case True
  then obtain items where v: "v = JDict items" by blast
  show ?thesis
    unfolding v display_result_dict
    by (intro seq_events_pred show_skills_no_api) simp_all
next
  case False
  then show ?thesis
    by (simp add: display_result_not_dict)
qed

text \<open>
  What follows the call of the API when it returns \<open>response\<close>: the inner handler for
  \<^verbatim>\<open>JSONDecodeError\<close> and the outer one for every other exception.
\<close>

lemma shown_shape:
  fixes env response
  defines "X \<equiv> except_Exception (process_response env response)
                  (\<lambda>e. emit [StError (msg_api_error e)])"
  shows "snd X = Inr () \<and> (\<forall>ev\<in>set (fst X). \<not> is_api_call ev) \<and>
     ((\<forall>ev\<in>set (fst X). \<not> shows_result ev) \<or>
      (\<exists>v post. fst X = JsonLoads (clean_result response) # post \<and>
                 json_loads env (clean_result response) = Inr v))"
proof (cases "response = []")
  case True
  then show ?thesis
    by (simp add: X_def process_response_empty emit_def)
next
  case ne: False
  show ?thesis
  proof (cases "json_loads env (clean_result response)")
    case (Inl e)
    show ?thesis
      unfolding X_def process_response_not_loaded [OF ne Inl]
      by (cases e) (simp_all add: emit_def)
  next
    case (Inr v)
    obtain evs r where d: "display_result v = (evs, r)"
      by (cases "display_result v")
    have no_api: "\<forall>ev\<in>set evs. \<not> is_api_call ev"
      using display_result_no_api [of v] d by simp
    have "r = Inr () \<or> (\<exists>m. r = Inl (Raised (AttributeError m))) \<or> (\<exists>m. r = Inl (Raised (TypeError m)))"
      using display_result_outcome [of v] d by simp
    then show ?thesis
      unfolding X_def process_response_loaded [OF ne Inr] d
      using no_api Inr
      by (elim disjE exE) simp_all
  qed
qed

lemma run_screening_shape:
  assumes "rt \<noteq> []" "jt \<noteq> []"
  shows "\<exists>rest.
     run_screening env m rt jt =
       ([Spinner (ascii ''Screening resume...''), ApiCall (build_prompt rt jt)] @ rest, Inr ()) \<and>
     (\<forall>ev\<in>set rest. \<not> is_api_call ev) \<and>
     ((\<forall>ev\<in>set rest. \<not> shows_result ev) \<or>
      (\<exists>response v post.
         generate_content env (api_key m) (build_prompt rt jt) = Inr response \<and>
         rest = JsonLoads (clean_result response) # post \<and>
         json_loads env (clean_result response) = Inr v))"
proof (cases "generate_content env (api_key m) (build_prompt rt jt)")
  case (Inl e)
  have "run_screening env m rt jt =
       ([Spinner (ascii ''Screening resume...''), ApiCall (build_prompt rt jt)] @
        [StError (msg_api_error (OtherException (msg_generating e)))], Inr ())"
    using assms Inl by (simp add: run_screening_def screen_resume_def raise_def)
  then show ?thesis
    by (intro exI [of _ "[StError (msg_api_error (OtherException (msg_generating e)))]"]) simp
next
  case (Inr response)
  let ?X = "except_Exception (process_response env response) (\<lambda>e. emit [StError (msg_api_error e)])"
  have scr: "screen_resume env m rt jt = ([ApiCall (build_prompt rt jt)], Inr response)"
    using assms Inr by (simp add: screen_resume_def ret_def)
  obtain evs r where pr: "process_response env response = (evs, r)"
    by (cases "process_response env response")
  have "except_Exception (seq (screen_resume env m rt jt) (process_response env))
          (\<lambda>e. emit [StError (msg_api_error e)]) =
        (ApiCall (build_prompt rt jt) # fst ?X, snd ?X)"
    unfolding scr pr by (cases r) (simp_all add: pr except_Exception_def split: signal.splits prod.splits)
  then have run: "run_screening env m rt jt =
       ([Spinner (ascii ''Screening resume...''), ApiCall (build_prompt rt jt)] @ fst ?X, Inr ())"
    using shown_shape [of env response] by (simp add: run_screening_def)
  show ?thesis
    using shown_shape [of env response] run Inr
    by (intro exI [of _ "fst ?X"]) simp
qed

lemma decode_loop_only_decode:
  "\<forall>ev\<in>set (fst (decode_loop env bs encs)). \<not> is_api_call ev \<and> \<not> shows_result ev"
  by (induction encs) (auto split: option.splits prod.splits)

lemma validate_and_screen_blank:
  "strip rt = [] \<or> strip jt = [] \<Longrightarrow>
   \<exists>t. validate_and_screen env m rt jt = ([StError t], Inr ())"
  by (auto simp: validate_and_screen_def emit_def)

lemma validate_and_screen_nonblank:
  "strip rt \<noteq> [] \<Longrightarrow> strip jt \<noteq> [] \<Longrightarrow>
   validate_and_screen env m rt jt = run_screening env m rt jt"
  by (auto simp: validate_and_screen_def dest: strip_nonempty)

text \<open>
  Every run of the handler either has no call of the API and shows no result, or has
  the shape: temporary file, extraction, decoding, deletion, one call of the API, and
  what follows it.
\<close>

lemma evaluate_resume_shapes:
  "(\<forall>ev\<in>set (fst (evaluate_resume env m files rfo jfo)). \<not> is_api_call ev \<and> \<not> shows_result ev) \<or>
   (\<exists>rf jf path devs rt jt rest.
      rfo = Some rf \<and> jfo = Some jf \<and>
      extract_text_from_file env (files(path \<mapsto> file_bytes rf)) path = Inr rt \<and>
      decode_loop env (file_bytes jf) encodings_to_try = (devs, Some jt) \<and>
      strip rt \<noteq> [] \<and> strip jt \<noteq> [] \<and>
      evaluate_resume env m files rfo jfo =
        ([TmpCreate path, TmpWrite path (file_bytes rf), ExtractText path, ReadJD] @ devs @
         [Unlink path, Spinner (ascii ''Screening resume...''), ApiCall (build_prompt rt jt)] @ rest,
         Inr ()) \<and>
      (\<forall>ev\<in>set devs. \<not> is_api_call ev \<and> \<not> shows_result ev) \<and>
      (\<forall>ev\<in>set rest. \<not> is_api_call ev) \<and>
      ((\<forall>ev\<in>set rest. \<not> shows_result ev) \<or>
       (\<exists>response v post.
          generate_content env (api_key m) (build_prompt rt jt) = Inr response \<and>
          rest = JsonLoads (clean_result response) # post \<and>
          json_loads env (clean_result response) = Inr v)))"
  (is "?quiet \<or> ?screened")
proof (cases "\<exists>rf jf. rfo = Some rf \<and> jfo = Some jf")
  case False
  then have "evaluate_resume env m files rfo jfo = emit [StWarning msg_upload_both]"
    by (cases rfo; cases jfo) (simp_all add: evaluate_resume_def)
  then show ?thesis by simp
next
  case True
  then obtain rf jf where up: "rfo = Some rf" "jfo = Some jf" by blast
  show ?thesis
  proof (cases "named_temporary_file env (splitext_ext (file_name rf))")
    case (Inl e)
    then have "evaluate_resume env m files rfo jfo = ([StError (msg_processing e)], Inr ())"
      by (simp add: up evaluate_resume_both process_files_def raise_def emit_def)
    then show ?thesis by simp
  next
    case (Inr path)
    show ?thesis
    proof (cases "tmp_write env path (file_bytes rf)")
      case (Some e)
      with Inr have "evaluate_resume env m files rfo jfo =
          ([TmpCreate path, StError (msg_processing e)], Inr ())"
        by (simp add: up evaluate_resume_both process_files_def raise_def emit_def)
      then show ?thesis by simp
    next
      case None
      obtain rt where rt: "extract_text_from_file env (files(path \<mapsto> file_bytes rf)) path = Inr rt"
        using extract_total by blast
      obtain devs r where dl: "decode_loop env (file_bytes jf) encodings_to_try = (devs, r)"
        by (cases "decode_loop env (file_bytes jf) encodings_to_try")
      have devs: "\<forall>ev\<in>set devs. \<not> is_api_call ev \<and> \<not> shows_result ev"
        using decode_loop_only_decode [of env "file_bytes jf" encodings_to_try] dl by simp
      note pf = process_files_written [OF Inr None rt, of m jf]
      show ?thesis
      proof (cases r)
        case None
        with pf dl have "evaluate_resume env m files rfo jfo =
            ([TmpCreate path, TmpWrite path (file_bytes rf), ExtractText path, ReadJD] @ devs @
             [StError msg_decode_failed], Inl StopScript)"
          by (simp add: up evaluate_resume_both)
        with devs show ?thesis by (simp add: ball_Un)
      next
        case (Some jt)
        show ?thesis
        proof (cases "strip rt = [] \<or> strip jt = []")
          case True
          then obtain t where "validate_and_screen env m rt jt = ([StError t], Inr ())"
            using validate_and_screen_blank by blast
          with pf dl Some have "evaluate_resume env m files rfo jfo =
            ([TmpCreate path, TmpWrite path (file_bytes rf), ExtractText path, ReadJD] @ devs @
             [Unlink path, StError t], Inr ())"
            by (simp add: up evaluate_resume_both)
          with devs show ?thesis by (simp add: ball_Un)
        next
          case False
          then have nb: "strip rt \<noteq> []" "strip jt \<noteq> []" by simp_all
          then have ne: "rt \<noteq> []" "jt \<noteq> []" by (auto dest: strip_nonempty)
          obtain rest where rest:
            "run_screening env m rt jt =
               ([Spinner (ascii ''Screening resume...''), ApiCall (build_prompt rt jt)] @ rest, Inr ())"
            "\<forall>ev\<in>set rest. \<not> is_api_call ev"
            "(\<forall>ev\<in>set rest. \<not> shows_result ev) \<or>
              (\<exists>response v post.
                 generate_content env (api_key m) (build_prompt rt jt) = Inr response \<and>
                 rest = JsonLoads (clean_result response) # post \<and>
                 json_loads env (clean_result response) = Inr v)"
            using run_screening_shape [OF ne, of env m] by blast
          have run: "evaluate_resume env m files rfo jfo =
            ([TmpCreate path, TmpWrite path (file_bytes rf), ExtractText path, ReadJD] @ devs @
             [Unlink path, Spinner (ascii ''Screening resume...''), ApiCall (build_prompt rt jt)] @ rest,
             Inr ())"
            using pf dl Some rest(1) validate_and_screen_nonblank [OF nb, of env m]
            by (simp add: up evaluate_resume_both)
          have ?screened
            using up rt dl Some nb run devs rest(2,3)
            by (intro exI [of _ rf] exI [of _ jf] exI [of _ path] exI [of _ devs]
                  exI [of _ rt] exI [of _ jt] exI [of _ rest]) simp
          then show ?thesis ..
        qed
      qed
    qed
  qed
qed

section \<open>The order of a run\<close>

text \<open>
  C8. In every run of the handler a call of the API comes after the temporary file was
  written, the resume text extracted from it, the job description decoded and the file
  deleted; both texts have passed the test for a character that is not white space and
  the prompt is built from them; the API is called once. An element of the evaluation
  is shown only after the response of that call was parsed: it stands after the parse
  of the cleaned response, which gave a value, and nothing of the evaluation is shown
  before.
\<close>

theorem api_call_after_validation:
  "(\<forall>p. ApiCall p \<in> set (fst (evaluate_resume env m files rfo jfo)) \<longrightarrow>
      (\<exists>rf jf path devs resume_text jd_text rest.
         rfo = Some rf \<and> jfo = Some jf \<and>
         extract_text_from_file env (files(path \<mapsto> file_bytes rf)) path = Inr resume_text \<and>
         decode_loop env (file_bytes jf) encodings_to_try = (devs, Some jd_text) \<and>
         strip resume_text \<noteq> [] \<and> strip jd_text \<noteq> [] \<and>
         p = build_prompt resume_text jd_text \<and>
         fst (evaluate_resume env m files rfo jfo) =
           [TmpCreate path, TmpWrite path (file_bytes rf), ExtractText path, ReadJD] @ devs @
           [Unlink path, Spinner (ascii ''Screening resume...''), ApiCall p] @ rest \<and>
         (\<forall>ev\<in>set devs. \<not> is_api_call ev) \<and> (\<forall>ev\<in>set rest. \<not> is_api_call ev))) \<and>
   (\<forall>ev. ev \<in> set (fst (evaluate_resume env m files rfo jfo)) \<and> shows_result ev \<longrightarrow>
      (\<exists>pre response v post.
         fst (evaluate_resume env m files rfo jfo) =
           pre @ JsonLoads (clean_result response) # post \<and>
         (\<exists>p. ApiCall p \<in> set pre \<and> generate_content env (api_key m) p = Inr response) \<and>
         json_loads env (clean_result response) = Inr v \<and>
         (\<forall>e\<in>set pre. \<not> shows_result e) \<and> ev \<in> set post))"
proof (intro conjI allI impI)
  fix p
  assume p: "ApiCall p \<in> set (fst (evaluate_resume env m files rfo jfo))"
  then have "\<not> (\<forall>ev\<in>set (fst (evaluate_resume env m files rfo jfo)).
      \<not> is_api_call ev \<and> \<not> shows_result ev)"
    by (intro notI) (drule bspec [where x = "ApiCall p"], simp_all)
  with evaluate_resume_shapes [of env m files rfo jfo]
  obtain rf jf path devs rt jt rest where s:
    "rfo = Some rf" "jfo = Some jf"
    "extract_text_from_file env (files(path \<mapsto> file_bytes rf)) path = Inr rt"
    "decode_loop env (file_bytes jf) encodings_to_try = (devs, Some jt)"
    "strip rt \<noteq> []" "strip jt \<noteq> []"
    "evaluate_resume env m files rfo jfo =
        ([TmpCreate path, TmpWrite path (file_bytes rf), ExtractText path, ReadJD] @ devs @
         [Unlink path, Spinner (ascii ''Screening resume...''), ApiCall (build_prompt rt jt)] @ rest,
         Inr ())"
    "\<forall>ev\<in>set devs. \<not> is_api_call ev \<and> \<not> shows_result ev"
    "\<forall>ev\<in>set rest. \<not> is_api_call ev"
    by blast
  from p s(7) have "ApiCall p \<in> set devs \<or> p = build_prompt rt jt \<or> ApiCall p \<in> set rest"
    by auto
  moreover from s(8) have "ApiCall p \<notin> set devs"
    by (intro notI) (drule bspec [where x = "ApiCall p"], simp_all)
  moreover from s(9) have "ApiCall p \<notin> set rest"
    by (intro notI) (drule bspec [where x = "ApiCall p"], simp_all)
  ultimately have eq: "p = build_prompt rt jt"
    by simp
  show "\<exists>rf jf path devs resume_text jd_text rest.
         rfo = Some rf \<and> jfo = Some jf \<and>
         extract_text_from_file env (files(path \<mapsto> file_bytes rf)) path = Inr resume_text \<and>
         decode_loop env (file_bytes jf) encodings_to_try = (devs, Some jd_text) \<and>
         strip resume_text \<noteq> [] \<and> strip jd_text \<noteq> [] \<and>
         p = build_prompt resume_text jd_text \<and>
         fst (evaluate_resume env m files rfo jfo) =
           [TmpCreate path, TmpWrite path (file_bytes rf), ExtractText path, ReadJD] @ devs @
           [Unlink path, Spinner (ascii ''Screening resume...''), ApiCall p] @ rest \<and>
         (\<forall>ev\<in>set devs. \<not> is_api_call ev) \<and> (\<forall>ev\<in>set rest. \<not> is_api_call ev)"
    using s eq
    by (intro exI [of _ rf] exI [of _ jf] exI [of _ path] exI [of _ devs]
          exI [of _ rt] exI [of _ jt] exI [of _ rest]) simp
next
  fix ev
  assume "ev \<in> set (fst (evaluate_resume env m files rfo jfo)) \<and> shows_result ev"
  then have ev: "ev \<in> set (fst (evaluate_resume env m files rfo jfo))" "shows_result ev"
    by simp_all
  then have "\<not> (\<forall>ev\<in>set (fst (evaluate_resume env m files rfo jfo)).
      \<not> is_api_call ev \<and> \<not> shows_result ev)"
    by (intro notI) (drule bspec [where x = ev], simp_all)
  with evaluate_resume_shapes [of env m files rfo jfo]
  obtain rf jf path devs rt jt rest where s0:
    "rfo = Some rf" "jfo = Some jf"
    "extract_text_from_file env (files(path \<mapsto> file_bytes rf)) path = Inr rt"
    "decode_loop env (file_bytes jf) encodings_to_try = (devs, Some jt)"
    "strip rt \<noteq> []" "strip jt \<noteq> []"
    "evaluate_resume env m files rfo jfo =
        ([TmpCreate path, TmpWrite path (file_bytes rf), ExtractText path, ReadJD] @ devs @
         [Unlink path, Spinner (ascii ''Screening resume...''), ApiCall (build_prompt rt jt)] @ rest,
         Inr ())"
    "\<forall>ev\<in>set devs. \<not> is_api_call ev \<and> \<not> shows_result ev"
    "\<forall>ev\<in>set rest. \<not> is_api_call ev"
    "(\<forall>ev\<in>set rest. \<not> shows_result ev) \<or>
       (\<exists>response v post.
          generate_content env (api_key m) (build_prompt rt jt) = Inr response \<and>
          rest = JsonLoads (clean_result response) # post \<and>
          json_loads env (clean_result response) = Inr v)"
    by (elim disjE exE conjE) simp_all
  note s = s0(7,8,10)
  let ?pre = "[TmpCreate path, TmpWrite path (file_bytes rf), ExtractText path, ReadJD] @ devs @
         [Unlink path, Spinner (ascii ''Screening resume...''), ApiCall (build_prompt rt jt)]"
  have quiet: "\<forall>e\<in>set ?pre. \<not> shows_result e"
    using s(2) by (simp add: ball_Un)
  from ev(1) s(1) have "ev \<in> set ?pre \<or> ev \<in> set rest"
    by auto
  with quiet ev(2) have in_rest: "ev \<in> set rest"
    by blast
  with ev(2) have "\<not> (\<forall>ev\<in>set rest. \<not> shows_result ev)"
    by blast
  with s(3) obtain response v post where r:
    "generate_content env (api_key m) (build_prompt rt jt) = Inr response"
    "rest = JsonLoads (clean_result response) # post"
    "json_loads env (clean_result response) = Inr v"
    by blast
  from in_rest r(2) ev(2) have in_post: "ev \<in> set post"
    by auto
  have tr: "fst (evaluate_resume env m files rfo jfo) = ?pre @ JsonLoads (clean_result response) # post"
    using s(1) r(2) by simp
  have api: "\<exists>p. ApiCall p \<in> set ?pre \<and> generate_content env (api_key m) p = Inr response"
    using r(1) by (intro exI [of _ "build_prompt rt jt"]) simp
  show "\<exists>pre response v post.
         fst (evaluate_resume env m files rfo jfo) =
           pre @ JsonLoads (clean_result response) # post \<and>
         (\<exists>p. ApiCall p \<in> set pre \<and> generate_content env (api_key m) p = Inr response) \<and>
         json_loads env (clean_result response) = Inr v \<and>
         (\<forall>e\<in>set pre. \<not> shows_result e) \<and> ev \<in> set post"
    using tr api r(3) quiet in_post
    by (rule_tac x = "?pre" in exI, rule_tac x = response in exI, rule_tac x = v in exI,
        rule_tac x = post in exI) (intro conjI; assumption)
qed

section \<open>A run that reaches the display\<close>

lemma run_screening_response:
  assumes "rt \<noteq> []" "jt \<noteq> []"
    and "generate_content env (api_key m) (build_prompt rt jt) = Inr response"
    and "process_response env response = (shown, Inr ())"
  shows "run_screening env m rt jt =
     ([Spinner (ascii ''Screening resume...''), ApiCall (build_prompt rt jt)] @ shown, Inr ())"
proof -
  have "screen_resume env m rt jt = ([ApiCall (build_prompt rt jt)], Inr response)"
    using assms(1-3) by (simp add: screen_resume_def ret_def)
  then show ?thesis
    by (simp add: run_screening_def assms(4))
qed

lemma screened_run:
  assumes "named_temporary_file env (splitext_ext (file_name rf)) = Inr path"
    and "tmp_write env path (file_bytes rf) = None"
    and "extract_text_from_file env (files(path \<mapsto> file_bytes rf)) path = Inr rt"
    and "decode_loop env (file_bytes jf) encodings_to_try = (devs, Some jt)"
    and "strip rt \<noteq> []" "strip jt \<noteq> []"
    and "generate_content env (api_key m) (build_prompt rt jt) = Inr response"
    and "process_response env response = (shown, Inr ())"
  shows "evaluate_resume env m files (Some rf) (Some jf) =
     ([TmpCreate path, TmpWrite path (file_bytes rf), ExtractText path, ReadJD] @ devs @
      [Unlink path, Spinner (ascii ''Screening resume...''), ApiCall (build_prompt rt jt)] @ shown,
      Inr ())"
proof -
  have ne: "rt \<noteq> []" "jt \<noteq> []"
    using assms(5,6) by (auto dest: strip_nonempty)
  show ?thesis
    using process_files_written [OF assms(1-3), of m jf] assms(4)
      validate_and_screen_nonblank [OF assms(5,6), of env m]
      run_screening_response [OF ne assms(7,8)]
    by (simp add: evaluate_resume_both)
qed

lemma app_clicked:
  assumes "init_model env = Inr model"
    and "button_clicked req"
    and "evaluate_resume env model files (resume_upload req) (jd_upload req) = (evs, Inr ())"
  shows "app env files req = (page_header @ upload_widgets @ evs @ [Sidebar], Inr ())"
  using assms by (simp add: app_with_model)

lemma app_clicked_stopped:
  assumes "init_model env = Inr model"
    and "button_clicked req"
    and "evaluate_resume env model files (resume_upload req) (jd_upload req) = (evs, Inl StopScript)"
  shows "app env files req = (page_header @ upload_widgets @ evs, Inl StopScript)"
  using assms by (simp add: app_with_model)

lemma demo_request_fields:
  "button_clicked demo_request" "resume_upload demo_request = Some demo_resume"
  "jd_upload demo_request = Some demo_jd"
  by (simp_all add: demo_request_def)

lemma demo_extract:
  "extract_text_from_file demo_env (files(demo_tmp_path \<mapsto> bs)) demo_tmp_path =
     Inr (ascii ''Python developer'')"
  by (simp add: extract_text_from_file_def extract_body_def demo_pdf_suffix demo_text_nonblank
        demo_env_def Let_def)

lemma scanned_extract:
  "extract_text_from_file scanned_env (files(demo_tmp_path \<mapsto> bs)) demo_tmp_path =
     Inr msg_no_text_pdf"
  by (simp add: extract_text_from_file_def extract_body_def demo_pdf_suffix strip_def
        scanned_env_def Let_def)

lemma demo_decode_loop:
  "decode_loop demo_env (file_bytes demo_jd) encodings_to_try =
     ([Decode UTF_8 True], Some (ascii ''Django''))"
  by (simp add: encodings_to_try_def demo_decode_ascii)

lemma demo_jd_nonblank: "strip (ascii ''Django'') \<noteq> []"
  by (rule strip_nonblank_hd) (simp_all add: ascii_def py_isspace_def)

lemma demo_generate: "generate_content demo_env k p = Inr demo_response"
  by (simp add: demo_env_def)

lemma demo_shown:
  "process_response demo_env demo_response =
     ([JsonLoads demo_object_text, StSuccess msg_complete, Columns 3,
       Metric (ascii ''Match Score'') (JInt 150), Subheader hdr_summary,
       Write (JStr default_summary), Columns 2, Subheader hdr_matched,
       Bullet (JStr (ascii ''Python'')), Subheader hdr_missing,
       Write (JStr no_missing_text), Expander hdr_raw_json, Json (JDict demo_object)],
      Inr ())"
proof -
  have loads: "json_loads demo_env (clean_result demo_response) = Inr (JDict demo_object)"
    by (simp add: demo_clean demo_loads)
  have shown: "display_result (JDict demo_object) =
     ([StSuccess msg_complete, Columns 3,
       Metric (ascii ''Match Score'') (JInt 150), Subheader hdr_summary,
       Write (JStr default_summary), Columns 2, Subheader hdr_matched,
       Bullet (JStr (ascii ''Python'')), Subheader hdr_missing,
       Write (JStr no_missing_text), Expander hdr_raw_json, Json (JDict demo_object)], Inr ())"
    using display_result_shown [of demo_object "[JStr (ascii ''Python'')]" "[]"]
    by (simp add: demo_fields)
  show ?thesis
    unfolding process_response_loaded [OF demo_response_nonempty loads] shown
    by (simp add: demo_clean)
qed

lemma demo_run:
  "evaluate_resume demo_env demo_model Map.empty (Some demo_resume) (Some demo_jd) =
     ([TmpCreate demo_tmp_path, TmpWrite demo_tmp_path (file_bytes demo_resume),
       ExtractText demo_tmp_path, ReadJD, Decode UTF_8 True, Unlink demo_tmp_path,
       Spinner (ascii ''Screening resume...''),
       ApiCall (build_prompt (ascii ''Python developer'') (ascii ''Django'')),
       JsonLoads demo_object_text, StSuccess msg_complete, Columns 3,
       Metric (ascii ''Match Score'') (JInt 150), Subheader hdr_summary,
       Write (JStr default_summary), Columns 2, Subheader hdr_matched,
       Bullet (JStr (ascii ''Python'')), Subheader hdr_missing,
       Write (JStr no_missing_text), Expander hdr_raw_json, Json (JDict demo_object)],
      Inr ())"
  using screened_run [OF demo_tmp demo_write demo_extract demo_decode_loop demo_text_nonblank
      demo_jd_nonblank demo_generate demo_shown, where files = Map.empty]
  by simp

theorem api_call_after_validation_witness:
  "ApiCall (build_prompt (ascii ''Python developer'') (ascii ''Django''))
     \<in> set (fst (evaluate_resume demo_env demo_model Map.empty (Some demo_resume) (Some demo_jd))) \<and>
   (\<exists>rf jf path devs resume_text jd_text rest.
      Some demo_resume = Some rf \<and> Some demo_jd = Some jf \<and>
      extract_text_from_file demo_env (Map.empty(path \<mapsto> file_bytes rf)) path = Inr resume_text \<and>
      decode_loop demo_env (file_bytes jf) encodings_to_try = (devs, Some jd_text) \<and>
      strip resume_text \<noteq> [] \<and> strip jd_text \<noteq> [] \<and>
      build_prompt (ascii ''Python developer'') (ascii ''Django'') = build_prompt resume_text jd_text \<and>
      fst (evaluate_resume demo_env demo_model Map.empty (Some demo_resume) (Some demo_jd)) =
        [TmpCreate path, TmpWrite path (file_bytes rf), ExtractText path, ReadJD] @ devs @
        [Unlink path, Spinner (ascii ''Screening resume...''),
         ApiCall (build_prompt (ascii ''Python developer'') (ascii ''Django''))] @ rest) \<and>
   Metric (ascii ''Match Score'') (JInt 150)
     \<in> set (fst (evaluate_resume demo_env demo_model Map.empty (Some demo_resume) (Some demo_jd))) \<and>
   (\<exists>pre response v post.
      fst (evaluate_resume demo_env demo_model Map.empty (Some demo_resume) (Some demo_jd)) =
        pre @ JsonLoads (clean_result response) # post \<and>
      (\<exists>p. ApiCall p \<in> set pre \<and> generate_content demo_env (api_key demo_model) p = Inr response) \<and>
      json_loads demo_env (clean_result response) = Inr v \<and>
      Metric (ascii ''Match Score'') (JInt 150) \<in> set post)"
proof -
  note order =
    api_call_after_validation [where env = demo_env and m = demo_model and files = Map.empty
      and rfo = "Some demo_resume" and jfo = "Some demo_jd"]
  have called: "ApiCall (build_prompt (ascii ''Python developer'') (ascii ''Django''))
     \<in> set (fst (evaluate_resume demo_env demo_model Map.empty (Some demo_resume) (Some demo_jd)))"
    by (simp add: demo_run)
  have shown: "Metric (ascii ''Match Score'') (JInt 150)
     \<in> set (fst (evaluate_resume demo_env demo_model Map.empty (Some demo_resume) (Some demo_jd)))"
    by (simp add: demo_run)
  from order [THEN conjunct1, rule_format, OF called]
  have 1: "\<exists>rf jf path devs resume_text jd_text rest.
      Some demo_resume = Some rf \<and> Some demo_jd = Some jf \<and>
      extract_text_from_file demo_env (Map.empty(path \<mapsto> file_bytes rf)) path = Inr resume_text \<and>
      decode_loop demo_env (file_bytes jf) encodings_to_try = (devs, Some jd_text) \<and>
      strip resume_text \<noteq> [] \<and> strip jd_text \<noteq> [] \<and>
      build_prompt (ascii ''Python developer'') (ascii ''Django'') = build_prompt resume_text jd_text \<and>
      fst (evaluate_resume demo_env demo_model Map.empty (Some demo_resume) (Some demo_jd)) =
        [TmpCreate path, TmpWrite path (file_bytes rf), ExtractText path, ReadJD] @ devs @
        [Unlink path, Spinner (ascii ''Screening resume...''),
         ApiCall (build_prompt (ascii ''Python developer'') (ascii ''Django''))] @ rest"
    by (elim exE conjE) (intro exI conjI; assumption)
  have sr: "Metric (ascii ''Match Score'') (JInt 150)
     \<in> set (fst (evaluate_resume demo_env demo_model Map.empty (Some demo_resume) (Some demo_jd))) \<and>
     shows_result (Metric (ascii ''Match Score'') (JInt 150))"
    using shown by simp
  from order [THEN conjunct2, rule_format, OF sr]
  have 2: "\<exists>pre response v post.
      fst (evaluate_resume demo_env demo_model Map.empty (Some demo_resume) (Some demo_jd)) =
        pre @ JsonLoads (clean_result response) # post \<and>
      (\<exists>p. ApiCall p \<in> set pre \<and> generate_content demo_env (api_key demo_model) p = Inr response) \<and>
      json_loads demo_env (clean_result response) = Inr v \<and>
      Metric (ascii ''Match Score'') (JInt 150) \<in> set post"
    by (elim exE conjE) (intro exI conjI; assumption)
  from called 1 shown 2 show ?thesis
    by (intro conjI)
qed

section \<open>What is shown is what the model returned\<close>








section \<open>Runs of the script in the example environments\<close>

lemma process_response_parser:
  "json_loads env = json_loads env' \<Longrightarrow> process_response env r = process_response env' r"
  by (simp add: process_response_def)

lemma demo_app:
  "app demo_env Map.empty demo_request =
     (page_header @ upload_widgets @
      [TmpCreate demo_tmp_path, TmpWrite demo_tmp_path (file_bytes demo_resume),
       ExtractText demo_tmp_path, ReadJD, Decode UTF_8 True, Unlink demo_tmp_path,
       Spinner (ascii ''Screening resume...''),
       ApiCall (build_prompt (ascii ''Python developer'') (ascii ''Django'')),
       JsonLoads demo_object_text, StSuccess msg_complete, Columns 3,
       Metric (ascii ''Match Score'') (JInt 150), Subheader hdr_summary,
       Write (JStr default_summary), Columns 2, Subheader hdr_matched,
       Bullet (JStr (ascii ''Python'')), Subheader hdr_missing,
       Write (JStr no_missing_text), Expander hdr_raw_json, Json (JDict demo_object)] @
      [Sidebar], Inr ())"
  by (rule app_clicked [OF demo_init]) (simp_all add: demo_request_fields demo_run)


lemma scanned_fields:
  "named_temporary_file scanned_env = named_temporary_file demo_env"
  "tmp_write scanned_env = tmp_write demo_env"
  "decode scanned_env = decode demo_env"
  "generate_content scanned_env = generate_content demo_env"
  "json_loads scanned_env = json_loads demo_env"
  "init_model scanned_env = init_model demo_env"
  by (simp_all add: scanned_env_def init_model_def read_api_key_def)

lemma decode_loop_decoder:
  "decode env = decode env' \<Longrightarrow> decode_loop env bs encs = decode_loop env' bs encs"
  by (induction encs) (auto split: option.splits prod.splits)

text \<open>
  C2: the resume is a PDF without a text layer. The extractor returns its placeholder,
  which passes the test for an empty text, and the run goes on to call the API with the
  placeholder as the resume; no error or warning is shown.
\<close>

theorem textless_resume_reaches_api:
  "pdf_page_texts scanned_env (file_bytes demo_resume) = Inr [[]] \<and>
   extract_text_from_file scanned_env (Map.empty(demo_tmp_path \<mapsto> file_bytes demo_resume))
     demo_tmp_path = Inr (ascii ''No text found in PDF.'') \<and>
   app scanned_env Map.empty demo_request =
     (page_header @ upload_widgets @
      [TmpCreate demo_tmp_path, TmpWrite demo_tmp_path (file_bytes demo_resume),
       ExtractText demo_tmp_path, ReadJD, Decode UTF_8 True, Unlink demo_tmp_path,
       Spinner (ascii ''Screening resume...''),
       ApiCall (build_prompt (ascii ''No text found in PDF.'') (ascii ''Django'')),
       JsonLoads demo_object_text, StSuccess msg_complete, Columns 3,
       Metric (ascii ''Match Score'') (JInt 150), Subheader hdr_summary,
       Write (JStr default_summary), Columns 2, Subheader hdr_matched,
       Bullet (JStr (ascii ''Python'')), Subheader hdr_missing,
       Write (JStr no_missing_text), Expander hdr_raw_json, Json (JDict demo_object)] @
      [Sidebar], Inr ()) \<and>
   filter is_failure_message (fst (app scanned_env Map.empty demo_request)) = []"
proof -
  have pages: "pdf_page_texts scanned_env (file_bytes demo_resume) = Inr [[]]"
    by (simp add: scanned_env_def)
  have tmp: "named_temporary_file scanned_env (splitext_ext (file_name demo_resume)) = Inr demo_tmp_path"
    by (simp add: scanned_fields demo_tmp)
  have wr: "tmp_write scanned_env demo_tmp_path (file_bytes demo_resume) = None"
    by (simp add: scanned_fields demo_write)
  have dl: "decode_loop scanned_env (file_bytes demo_jd) encodings_to_try =
      ([Decode UTF_8 True], Some (ascii ''Django''))"
    using decode_loop_decoder [OF scanned_fields(3)] demo_decode_loop by simp
  have gen: "generate_content scanned_env (api_key demo_model)
      (build_prompt msg_no_text_pdf (ascii ''Django'')) = Inr demo_response"
    by (simp add: scanned_fields demo_generate)
  have shown: "process_response scanned_env demo_response =
     ([JsonLoads demo_object_text, StSuccess msg_complete, Columns 3,
       Metric (ascii ''Match Score'') (JInt 150), Subheader hdr_summary,
       Write (JStr default_summary), Columns 2, Subheader hdr_matched,
       Bullet (JStr (ascii ''Python'')), Subheader hdr_missing,
       Write (JStr no_missing_text), Expander hdr_raw_json, Json (JDict demo_object)],
      Inr ())"
    using process_response_parser [OF scanned_fields(5)] demo_shown by simp
  have init: "init_model scanned_env = Inr demo_model"
    by (simp add: scanned_fields demo_init)
  note run = screened_run [OF tmp wr scanned_extract dl msg_no_text_pdf_nonblank demo_jd_nonblank
      gen shown, where files = Map.empty]
  have app: "app scanned_env Map.empty demo_request =
     (page_header @ upload_widgets @
      [TmpCreate demo_tmp_path, TmpWrite demo_tmp_path (file_bytes demo_resume),
       ExtractText demo_tmp_path, ReadJD, Decode UTF_8 True, Unlink demo_tmp_path,
       Spinner (ascii ''Screening resume...''),
       ApiCall (build_prompt msg_no_text_pdf (ascii ''Django'')),
       JsonLoads demo_object_text, StSuccess msg_complete, Columns 3,
       Metric (ascii ''Match Score'') (JInt 150), Subheader hdr_summary,
       Write (JStr default_summary), Columns 2, Subheader hdr_matched,
       Bullet (JStr (ascii ''Python'')), Subheader hdr_missing,
       Write (JStr no_missing_text), Expander hdr_raw_json, Json (JDict demo_object)] @
      [Sidebar], Inr ())"
    by (rule app_clicked [OF init]) (simp_all add: demo_request_fields run)
  have quiet: "filter is_failure_message (fst (app scanned_env Map.empty demo_request)) = []"
    unfolding app by (simp add: page_header_def upload_widgets_def)
  from pages scanned_extract [of Map.empty "file_bytes demo_resume"] app quiet show ?thesis
    by (simp add: msg_no_text_pdf_def)
qed

lemma disk_full_fields:
  "named_temporary_file disk_full_env = named_temporary_file demo_env"
  "tmp_write disk_full_env p bs = Some (OSError (ascii ''[Errno 28] No space left on device''))"
  "init_model disk_full_env = init_model demo_env"
  by (simp_all add: disk_full_env_def init_model_def read_api_key_def)

lemma undecodable_fields:
  "named_temporary_file undecodable_env = named_temporary_file demo_env"
  "tmp_write undecodable_env = tmp_write demo_env"
  "decode undecodable_env enc bs = None"
  "init_model undecodable_env = init_model demo_env"
  by (simp_all add: undecodable_env_def init_model_def read_api_key_def)

text \<open>
  C6: when writing the resume raises, the temporary file that was created stays; it
  also stays when the run stops at the decode error. Only a run that gets past the
  decoding deletes it.
\<close>

theorem tmp_file_left_behind:
  "app disk_full_env Map.empty demo_request =
     (page_header @ upload_widgets @
      [TmpCreate demo_tmp_path,
       StError (msg_processing (OSError (ascii ''[Errno 28] No space left on device''))),
       Sidebar], Inr ()) \<and>
   files_after Map.empty (fst (app disk_full_env Map.empty demo_request)) demo_tmp_path = Some [] \<and>
   app undecodable_env Map.empty demo_request =
     (page_header @ upload_widgets @
      [TmpCreate demo_tmp_path, TmpWrite demo_tmp_path (file_bytes demo_resume),
       ExtractText demo_tmp_path, ReadJD,
       Decode UTF_8 False, Decode UTF_8_SIG False, Decode WINDOWS_1252 False,
       Decode ISO_8859_1 False, Decode CP1252 False, StError msg_decode_failed],
      Inl StopScript) \<and>
   files_after Map.empty (fst (app undecodable_env Map.empty demo_request)) demo_tmp_path =
     Some (file_bytes demo_resume) \<and>
   files_after Map.empty (fst (app demo_env Map.empty demo_request)) demo_tmp_path = None"
proof -
  have full: "evaluate_resume disk_full_env demo_model Map.empty (Some demo_resume) (Some demo_jd) =
      ([TmpCreate demo_tmp_path,
        StError (msg_processing (OSError (ascii ''[Errno 28] No space left on device'')))], Inr ())"
    by (simp add: evaluate_resume_both process_files_def disk_full_fields demo_tmp raise_def emit_def)
  have app_full: "app disk_full_env Map.empty demo_request =
     (page_header @ upload_widgets @
      [TmpCreate demo_tmp_path,
       StError (msg_processing (OSError (ascii ''[Errno 28] No space left on device'')))] @
      [Sidebar], Inr ())"
    by (rule app_clicked [where model = demo_model])
       (simp_all add: disk_full_fields demo_init demo_request_fields full)
  obtain rt where rt:
    "extract_text_from_file undecodable_env (Map.empty(demo_tmp_path \<mapsto> file_bytes demo_resume))
       demo_tmp_path = Inr rt"
    using extract_total by blast
  have dl: "decode_loop undecodable_env (file_bytes demo_jd) encodings_to_try =
      (map (\<lambda>enc. Decode enc False) encodings_to_try, None)"
    by (rule decode_loop_all_fail) (simp add: undecodable_fields)
  have tmp: "named_temporary_file undecodable_env (splitext_ext (file_name demo_resume)) =
      Inr demo_tmp_path"
    by (simp add: undecodable_fields demo_tmp)
  have wr: "tmp_write undecodable_env demo_tmp_path (file_bytes demo_resume) = None"
    by (simp add: undecodable_fields demo_write)
  have stop: "evaluate_resume undecodable_env demo_model Map.empty (Some demo_resume) (Some demo_jd) =
     ([TmpCreate demo_tmp_path, TmpWrite demo_tmp_path (file_bytes demo_resume),
       ExtractText demo_tmp_path, ReadJD,
       Decode UTF_8 False, Decode UTF_8_SIG False, Decode WINDOWS_1252 False,
       Decode ISO_8859_1 False, Decode CP1252 False, StError msg_decode_failed],
      Inl StopScript)"
    using process_files_written [OF tmp wr rt, of demo_model demo_jd] unfolding dl
    by (simp add: evaluate_resume_both encodings_to_try_def)
  have app_stop: "app undecodable_env Map.empty demo_request =
     (page_header @ upload_widgets @
      [TmpCreate demo_tmp_path, TmpWrite demo_tmp_path (file_bytes demo_resume),
       ExtractText demo_tmp_path, ReadJD,
       Decode UTF_8 False, Decode UTF_8_SIG False, Decode WINDOWS_1252 False,
       Decode ISO_8859_1 False, Decode CP1252 False, StError msg_decode_failed],
      Inl StopScript)"
    by (rule app_clicked_stopped [where model = demo_model])
       (simp_all add: undecodable_fields demo_init demo_request_fields stop)
  have 1: "files_after Map.empty (fst (app disk_full_env Map.empty demo_request)) demo_tmp_path = Some []"
    unfolding app_full by (simp add: files_after_def page_header_def upload_widgets_def)
  have 2: "files_after Map.empty (fst (app undecodable_env Map.empty demo_request)) demo_tmp_path =
     Some (file_bytes demo_resume)"
    unfolding app_stop by (simp add: files_after_def page_header_def upload_widgets_def)
  have 3: "files_after Map.empty (fst (app demo_env Map.empty demo_request)) demo_tmp_path = None"
    unfolding demo_app by (simp add: files_after_def page_header_def upload_widgets_def)
  from app_full 1 app_stop 2 3 show ?thesis
    by simp
qed


end
